theory Spec2Isabelle
  imports Complex_Main "HOL-Library.Sublist"
begin

section \<open>The flow engine of the workflow repository\<close>

text \<open>
  A shallow embedding of the class \<open>FlowEngine\<close> (module \<open>shared/lib/flow-engine\<close>, the
  second document of \<open>src/shared/lib/logger.ts\<close>), of the constants it reads from
  \<open>src/shared/lib/constants.ts\<close> and of the error classes of \<open>shared/lib/errors\<close>.

  Conventions of the embedding.
  \<^item> A flow is what its type declares (\<open>nodes: Node[]\<close>, \<open>edges: Edge[]\<close>, the entries
    objects), with every field that reactflow's \<open>Node\<close> and \<open>Edge\<close> or the interfaces of
    \<open>flow.types.ts\<close> leave optional either absent or present, and with \<open>Node.data\<close>
    either absent or present as well: the repository hands the stored JSON to the engine
    unchecked, and the engine itself tests for absent data. An absent field
    (\<open>undefined\<close>) is \<open>None\<close>; JavaScript truthiness of an optional string is \<open>truthy\<close>.
    An entry of \<open>flow.nodes\<close> or \<open>flow.edges\<close> that is \<open>null\<close>, and an optional
    string field stored as \<open>null\<close> (which a template literal prints as \<open>null\<close>, not as
    \<open>undefined\<close>), are outside the model.
  \<^item> Field names are the source's, with a prefix where a name is shared by several
    interfaces or clashes with a constant of HOL: \<open>node_id\<close>, \<open>flow_id\<close>, \<open>edge_id\<close>,
    \<open>event_id\<close> for the four \<open>id\<close> fields, \<open>ntype\<close> for \<open>Node.type\<close>, \<open>atype\<close> for
    \<open>ActionNodeData.type\<close>, \<open>cvalue\<close> for \<open>ConditionNodeData.value\<close>, \<open>ndata\<close> for
    \<open>Node.data\<close>, \<open>wevent\<close> and \<open>wdata\<close> for \<open>WebhookEvent.event\<close> and \<open>.data\<close>,
    \<open>cfg_data\<close> for \<open>CallFlowActionConfig.data\<close>, \<open>http_method\<close> for
    \<open>HttpActionConfig.method\<close>; the fields of the returned
    \<open>FlowExecutionResult\<close> are \<open>success\<close>, \<open>resultNodes\<close> (its \<open>executedNodes\<close>) and
    \<open>resultErrors\<close> (its \<open>errors\<close>).
  \<^item> A string is the list of the bytes of its UTF-8 encoding; the messages of the source
    hold Portuguese letters and an arrow, written here as their bytes.
  \<^item> The calls of \<open>logger\<close> write to the console and return nothing; they are left out,
    except where the evaluation of an argument can throw.
\<close>

subsection \<open>Strings\<close>

definition a_tilde :: string where "a_tilde = [CHR 0xC3, CHR 0xA3]"
definition a_acute :: string where "a_acute = [CHR 0xC3, CHR 0xA1]"
definition o_acute :: string where "o_acute = [CHR 0xC3, CHR 0xB3]"
definition c_cedilla :: string where "c_cedilla = [CHR 0xC3, CHR 0xA7]"
definition arrow :: string where "arrow = [CHR 0xE2, CHR 0x86, CHR 0x92]"

definition nao :: string where "nao = ''n'' @ a_tilde @ ''o''"
definition no_lc :: string where "no_lc = ''n'' @ o_acute"
definition No_uc :: string where "No_uc = ''N'' @ o_acute"
definition acao :: string where "acao = ''a'' @ c_cedilla @ a_tilde @ ''o''"
definition condicao :: string where "condicao = ''condi'' @ c_cedilla @ a_tilde @ ''o''"

definition sq :: string where "sq = [CHR 0x27]"
definition dq :: string where "dq = [CHR 0x22]"

definition digitChar :: "nat \<Rightarrow> char" where
  "digitChar d = ''0123456789'' ! d"

text \<open>The decimal numeral of a natural number, as a template literal prints it.\<close>

fun showNat :: "nat \<Rightarrow> string" where
  "showNat n = (if n < 10 then [digitChar n] else showNat (n div 10) @ [digitChar (n mod 10)])"

declare showNat.simps [simp del]

text \<open>\<open>Array.prototype.join\<close> on a list of strings.\<close>

fun join :: "string \<Rightarrow> string list \<Rightarrow> string" where
  "join sep [] = []"
| "join sep [x] = x"
| "join sep (x # y # ys) = x @ sep @ join sep (y # ys)"

text \<open>A template literal prints an absent string as \<open>undefined\<close>.\<close>

definition showOpt :: "string option \<Rightarrow> string" where
  "showOpt s = (case s of None \<Rightarrow> ''undefined'' | Some t \<Rightarrow> t)"

text \<open>JavaScript truthiness of an optional string: present and not empty.\<close>

definition truthy :: "string option \<Rightarrow> bool" where
  "truthy s = (case s of None \<Rightarrow> False | Some t \<Rightarrow> t \<noteq> [])"

text \<open>\<open>String.prototype.startsWith\<close>, and \<open>endsWith\<close>.\<close>

definition startsWith :: "string \<Rightarrow> string \<Rightarrow> bool" where
  "startsWith s p = (take (length p) s = p)"

definition endsWith :: "string \<Rightarrow> string \<Rightarrow> bool" where
  "endsWith s p = (length p \<le> length s \<and> drop (length s - length p) s = p)"

text \<open>
  \<open>String.prototype.trim\<close> removes from both ends the white space and the line
  terminators of ECMAScript: the code points U+0009 to U+000D, U+0020, U+00A0, U+1680,
  U+2000 to U+200A, U+2028, U+2029, U+202F, U+205F, U+3000 and U+FEFF, each given here
  by the bytes that encode it. No encoding of a code point ends or begins inside the
  encoding of another, so removing these byte sequences at the two ends of the bytes of
  a string removes these code points at the two ends of the string.
\<close>

definition whiteSpace :: "string list" where
  "whiteSpace =
     [[CHR 0x09], [CHR 0x0A], [CHR 0x0B], [CHR 0x0C], [CHR 0x0D], [CHR 0x20],
      [CHR 0xC2, CHR 0xA0],
      [CHR 0xE1, CHR 0x9A, CHR 0x80],
      [CHR 0xE2, CHR 0x80, CHR 0x80], [CHR 0xE2, CHR 0x80, CHR 0x81],
      [CHR 0xE2, CHR 0x80, CHR 0x82], [CHR 0xE2, CHR 0x80, CHR 0x83],
      [CHR 0xE2, CHR 0x80, CHR 0x84], [CHR 0xE2, CHR 0x80, CHR 0x85],
      [CHR 0xE2, CHR 0x80, CHR 0x86], [CHR 0xE2, CHR 0x80, CHR 0x87],
      [CHR 0xE2, CHR 0x80, CHR 0x88], [CHR 0xE2, CHR 0x80, CHR 0x89],
      [CHR 0xE2, CHR 0x80, CHR 0x8A],
      [CHR 0xE2, CHR 0x80, CHR 0xA8], [CHR 0xE2, CHR 0x80, CHR 0xA9],
      [CHR 0xE2, CHR 0x80, CHR 0xAF],
      [CHR 0xE2, CHR 0x81, CHR 0x9F],
      [CHR 0xE3, CHR 0x80, CHR 0x80],
      [CHR 0xEF, CHR 0xBB, CHR 0xBF]]"

lemma whiteSpace_nonempty: "ws \<in> set whiteSpace \<Longrightarrow> ws \<noteq> []"
  by (auto simp: whiteSpace_def)

lemma find_Some_D: "find P xs = Some x \<Longrightarrow> x \<in> set xs \<and> P x"
  by (induction xs) (auto split: if_splits)

function trimStart :: "string \<Rightarrow> string" where
  "trimStart s =
     (case find (\<lambda>ws. startsWith s ws) whiteSpace of
        None \<Rightarrow> s
      | Some ws \<Rightarrow> trimStart (drop (length ws) s))"
  by pat_completeness auto

termination trimStart
proof (relation "measure length", goal_cases)
  case 1
  show ?case by simp
next
  case (2 s ws)
  then have "ws \<in> set whiteSpace" and "take (length ws) s = ws"
    by (auto dest: find_Some_D simp: startsWith_def)
  then have "ws \<noteq> []" and "s \<noteq> []"
    using whiteSpace_nonempty by fastforce+
  then show ?case by simp
qed

function trimEnd :: "string \<Rightarrow> string" where
  "trimEnd s =
     (case find (\<lambda>ws. endsWith s ws) whiteSpace of
        None \<Rightarrow> s
      | Some ws \<Rightarrow> trimEnd (take (length s - length ws) s))"
  by pat_completeness auto

termination trimEnd
proof (relation "measure length", goal_cases)
  case 1
  show ?case by simp
next
  case (2 s ws)
  then have "ws \<in> set whiteSpace" and "length ws \<le> length s"
    by (auto dest: find_Some_D simp: endsWith_def)
  then have "ws \<noteq> []" and "length ws \<le> length s"
    using whiteSpace_nonempty by fastforce+
  then show ?case by (cases ws) auto
qed

declare trimStart.simps [simp del] trimEnd.simps [simp del]

definition trim :: "string \<Rightarrow> string" where
  "trim s = trimEnd (trimStart s)"

text \<open>\<open>String.prototype.split\<close> on one separator character, and \<open>includes\<close>.\<close>

fun split :: "char \<Rightarrow> string \<Rightarrow> string list" where
  "split sep [] = [[]]"
| "split sep (c # cs) =
     (if c = sep then [] # split sep cs
      else (case split sep cs of [] \<Rightarrow> [[c]] | w # ws \<Rightarrow> (c # w) # ws))"

fun str_includes :: "string \<Rightarrow> string \<Rightarrow> bool" where
  "str_includes [] p = (p = [])"
| "str_includes (c # cs) p = (startsWith (c # cs) p \<or> str_includes cs p)"

subsection \<open>Constants (constants.ts)\<close>

definition MAX_FLOW_DEPTH :: nat where "MAX_FLOW_DEPTH = 5"
definition HTTP_TIMEOUT :: nat where "HTTP_TIMEOUT = 30000"
definition DATA_PREFIX :: string where "DATA_PREFIX = ''data.''"
definition CONDITION_HANDLES_YES :: string where "CONDITION_HANDLES_YES = ''yes''"
definition CONDITION_HANDLES_NO :: string where "CONDITION_HANDLES_NO = ''no''"
definition NODE_TYPES_TRIGGER :: string where "NODE_TYPES_TRIGGER = ''trigger''"
definition NODE_TYPES_CONDITION :: string where "NODE_TYPES_CONDITION = ''condition''"
definition NODE_TYPES_ACTION :: string where "NODE_TYPES_ACTION = ''action''"
definition NODE_TYPES_END :: string where "NODE_TYPES_END = ''end''"
definition ACTION_TYPES_LOG :: string where "ACTION_TYPES_LOG = ''LOG''"
definition ACTION_TYPES_HTTP_REQUEST :: string where "ACTION_TYPES_HTTP_REQUEST = ''HTTP_REQUEST''"
definition ACTION_TYPES_SEND_EMAIL :: string where "ACTION_TYPES_SEND_EMAIL = ''SEND_EMAIL''"
definition ACTION_TYPES_CALL_FLOW :: string where "ACTION_TYPES_CALL_FLOW = ''CALL_FLOW''"
definition OP_EQUALS :: string where "OP_EQUALS = ''EQUALS''"
definition OP_NOT_EQUALS :: string where "OP_NOT_EQUALS = ''NOT_EQUALS''"
definition OP_CONTAINS :: string where "OP_CONTAINS = ''CONTAINS''"
definition OP_GREATER_THAN :: string where "OP_GREATER_THAN = ''GREATER_THAN''"
definition OP_LESS_THAN :: string where "OP_LESS_THAN = ''LESS_THAN''"

lemmas constants_defs =
  MAX_FLOW_DEPTH_def HTTP_TIMEOUT_def DATA_PREFIX_def CONDITION_HANDLES_YES_def
  CONDITION_HANDLES_NO_def NODE_TYPES_TRIGGER_def NODE_TYPES_CONDITION_def
  NODE_TYPES_ACTION_def NODE_TYPES_END_def ACTION_TYPES_LOG_def
  ACTION_TYPES_HTTP_REQUEST_def ACTION_TYPES_SEND_EMAIL_def ACTION_TYPES_CALL_FLOW_def
  OP_EQUALS_def OP_NOT_EQUALS_def OP_CONTAINS_def OP_GREATER_THAN_def OP_LESS_THAN_def

subsection \<open>Exceptions (shared/lib/errors) and results\<close>

text \<open>
  What a \<open>throw\<close> or a rejected promise carries: a \<open>ValidationError\<close> (message, field),
  any other \<open>Error\<close> (name, message), or a value that is not an \<open>Error\<close>, kept as the
  string \<open>String(value)\<close>. A \<open>TypeError\<close> of the language is an \<open>Error\<close> of that name.
\<close>

datatype exn =
    ValidationError string string
  | Error string string
  | Thrown string

datatype 'a res = Return 'a | Throw exn

definition bindRes :: "'a res \<Rightarrow> ('a \<Rightarrow> 'b res) \<Rightarrow> 'b res" where
  "bindRes r f = (case r of Throw e \<Rightarrow> Throw e | Return x \<Rightarrow> f x)"

text \<open>\<open>error instanceof Error ? error.message : String(error)\<close>\<close>

definition errorMessage :: "exn \<Rightarrow> string" where
  "errorMessage e = (case e of ValidationError m f \<Rightarrow> m | Error n m \<Rightarrow> m | Thrown s \<Rightarrow> s)"

definition isValidationError :: "exn \<Rightarrow> bool" where
  "isValidationError e = (case e of ValidationError m f \<Rightarrow> True | _ \<Rightarrow> False)"

definition isAbortError :: "exn \<Rightarrow> bool" where
  "isAbortError e = (case e of Error n m \<Rightarrow> n = ''AbortError'' | _ \<Rightarrow> False)"

text \<open>
  The two \<open>TypeError\<close>s the engine can meet, with the text Node.js gives them: the read
  of a property of \<open>undefined\<close>, and the conversion to a primitive of an object that has
  no callable \<open>toString\<close> or \<open>valueOf\<close>.
\<close>

definition typeError :: "string \<Rightarrow> exn" where
  "typeError m = Error ''TypeError'' m"

definition cannotReadMsg :: "string \<Rightarrow> string" where
  "cannotReadMsg prop =
     ''Cannot read properties of undefined (reading '' @ sq @ prop @ sq @ '')''"

definition cannotConvertMsg :: string where
  "cannotConvertMsg = ''Cannot convert object to primitive value''"

subsection \<open>JavaScript values of a payload\<close>

text \<open>
  The payload of a webhook is parsed JSON: \<open>Record<string, unknown>\<close>. An object is the
  list of its own properties in insertion order; a number is a rational, an infinity
  or \<open>NaN\<close>. A property read on such a value also reaches what its prototype chain
  holds: built-in functions (\<open>JFunction\<close>, with the name of the function) and, under
  \<open>__proto__\<close>, the prototype objects themselves.
\<close>

datatype jsnum = NaN | NegInf | Fin rat | PosInf

datatype jsval =
    JUndefined
  | JNull
  | JBool bool
  | JNum jsnum
  | JStr string
  | JArr "jsval list"
  | JObj "(string \<times> jsval) list"
  | JFunction string
  | JObjectPrototype
  | JArrayPrototype

type_synonym jsobject = "(string \<times> jsval) list"

definition isNaN :: "jsnum \<Rightarrow> bool" where
  "isNaN x = (x = NaN)"

text \<open>The comparison \<open>a > b\<close> of two numbers; false when either is \<open>NaN\<close>.\<close>

fun js_gt :: "jsnum \<Rightarrow> jsnum \<Rightarrow> bool" where
  "js_gt NaN _ = False"
| "js_gt _ NaN = False"
| "js_gt (Fin a) (Fin b) = (b < a)"
| "js_gt PosInf PosInf = False"
| "js_gt PosInf _ = True"
| "js_gt _ PosInf = False"
| "js_gt NegInf _ = False"
| "js_gt _ NegInf = True"

definition js_lt :: "jsnum \<Rightarrow> jsnum \<Rightarrow> bool" where
  "js_lt a b = js_gt b a"

text \<open>
  What depends on the JavaScript engine that runs the code is a parameter of the model:
  \<^item> \<open>inherited v key\<close>, the value an object \<open>v\<close> inherits from its prototype chain under
    a name that is not an own property of \<open>v\<close> (\<open>undefined\<close> when the chain has no such
    property): the members of \<open>Object.prototype\<close> and \<open>Array.prototype\<close> differ between
    versions of the language;
  \<^item> \<open>numberToString\<close>, the text of a number, and \<open>stringToNumber\<close>, the number a string
    denotes (\<open>NaN\<close> if none): both are total and neither throws.
\<close>

record Runtime =
  inherited :: "jsval \<Rightarrow> string \<Rightarrow> jsval"
  numberToString :: "jsnum \<Rightarrow> string"
  stringToNumber :: "string \<Rightarrow> jsnum"

text \<open>
  The own property of a value under a name: a property of an object, an element of an
  array by its canonical index, or the length of an array.
\<close>

definition ownProp :: "jsval \<Rightarrow> string \<Rightarrow> jsval option" where
  "ownProp v key =
     (case v of
        JObj ps \<Rightarrow> map_of ps key
      | JArr xs \<Rightarrow>
          (if key = ''length'' then Some (JNum (Fin (of_nat (length xs))))
           else (case List.find (\<lambda>i. showNat i = key) [0 ..< length xs] of
                   None \<Rightarrow> None
                 | Some i \<Rightarrow> Some (xs ! i)))
      | _ \<Rightarrow> None)"

text \<open>
  The property read \<open>current[key]\<close> on a value whose \<open>typeof\<close> is \<open>object\<close>: the own
  property if there is one, the inherited one otherwise.
\<close>

definition getProp :: "Runtime \<Rightarrow> jsval \<Rightarrow> string \<Rightarrow> jsval" where
  "getProp rt v key = (case ownProp v key of Some x \<Rightarrow> x | None \<Rightarrow> inherited rt v key)"

text \<open>
  \<open>typeof current !== 'object'\<close>, for a value that is neither null nor undefined: objects,
  arrays and the prototype objects are of type \<open>object\<close>, a function is not.
\<close>

definition isObjectType :: "jsval \<Rightarrow> bool" where
  "isObjectType v =
     (case v of JObj _ \<Rightarrow> True | JArr _ \<Rightarrow> True | JObjectPrototype \<Rightarrow> True
      | JArrayPrototype \<Rightarrow> True | _ \<Rightarrow> False)"

text \<open>
  \<open>String(v)\<close>, which is also what a template literal does to \<open>v\<close>. A primitive has its
  text. An object is converted by its \<open>toString\<close>: a parsed object inherits the one of
  \<open>Object.prototype\<close>, which answers \<open>[object Object]\<close>, unless it has an own property
  of that name; an own property of parsed JSON is never a function, and then neither
  \<open>toString\<close> nor \<open>valueOf\<close> yields a primitive: a \<open>TypeError\<close>. An array joins the texts
  of its elements with commas, \<open>null\<close> and \<open>undefined\<close> counting as empty.
\<close>

fun js_String :: "Runtime \<Rightarrow> jsval \<Rightarrow> string res"
  and js_join :: "Runtime \<Rightarrow> jsval list \<Rightarrow> string res"
where
  "js_String rt JUndefined = Return ''undefined''"
| "js_String rt JNull = Return ''null''"
| "js_String rt (JBool b) = Return (if b then ''true'' else ''false'')"
| "js_String rt (JNum n) = Return (numberToString rt n)"
| "js_String rt (JStr s) = Return s"
| "js_String rt (JArr xs) = js_join rt xs"
| "js_String rt (JObj ps) =
     (if map_of ps ''toString'' \<noteq> None then Throw (typeError cannotConvertMsg)
      else Return ''[object Object]'')"
| "js_String rt (JFunction n) = Return (''function '' @ n @ ''() { [native code] }'')"
| "js_String rt JObjectPrototype = Return ''[object Object]''"
| "js_String rt JArrayPrototype = Return []"
| "js_join rt [] = Return []"
| "js_join rt (x # xs) =
     bindRes (if x = JUndefined \<or> x = JNull then Return [] else js_String rt x)
       (\<lambda>a. if xs = [] then Return a
            else bindRes (js_join rt xs) (\<lambda>b. Return (a @ '','' @ b)))"

text \<open>
  \<open>Number(v)\<close>. An object is converted to a primitive first: its \<open>valueOf\<close> answers the
  object itself, so the primitive is the text \<open>toString\<close> gives, or the \<open>TypeError\<close>.
\<close>

definition js_Number :: "Runtime \<Rightarrow> jsval \<Rightarrow> jsnum res" where
  "js_Number rt v =
     (case v of
        JUndefined \<Rightarrow> Return NaN
      | JNull \<Rightarrow> Return (Fin 0)
      | JBool b \<Rightarrow> Return (Fin (if b then 1 else 0))
      | JNum n \<Rightarrow> Return n
      | JStr s \<Rightarrow> Return (stringToNumber rt s)
      | _ \<Rightarrow> bindRes (js_String rt v) (\<lambda>s. Return (stringToNumber rt s)))"

text \<open>The spread \<open>{...a, ...b}\<close>: a key of \<open>a\<close> keeps its place, \<open>b\<close> wins on a collision.\<close>

fun setProp :: "string \<Rightarrow> jsval \<Rightarrow> jsobject \<Rightarrow> jsobject" where
  "setProp k v [] = [(k, v)]"
| "setProp k v ((k', v') # ps) = (if k' = k then (k, v) # ps else (k', v') # setProp k v ps)"

definition spread :: "jsobject \<Rightarrow> jsobject \<Rightarrow> jsobject" where
  "spread a b = fold (\<lambda>(k, v). setProp k v) b a"

subsection \<open>Flows (entities/flow/types/flow.types.ts) and webhook events\<close>

text \<open>
  \<open>FlowNodeData\<close> is a union read by casts (\<open>node.data as TriggerNodeData\<close>); a cast does
  not check anything, so the data of a node is the record of every field the engine may
  read, each absent or present. The data itself may be absent (\<open>ndata = None\<close>): reading
  a field of it then throws a \<open>TypeError\<close>.
\<close>

record ActionConfig =
  message :: "string option"
  url :: "string option"
  http_method :: "string option"
  headers :: "(string \<times> string) list option"
  body :: "jsobject option"
  email :: "string option"
  subject :: "string option"
  flowId :: "string option"
  cfg_data :: "jsobject option"

record FlowNodeData =
  event :: "string option"
  field :: "string option"
  operator :: "string option"
  cvalue :: jsval
  atype :: "string option"
  config :: "ActionConfig option"

record Node =
  node_id :: string
  ntype :: "string option"
  ndata :: "FlowNodeData option"

record Edge =
  edge_id :: string
  source :: string
  target :: string
  sourceHandle :: "string option"

record Flow =
  flow_id :: string
  name :: string
  active :: bool
  nodes :: "Node list"
  edges :: "Edge list"

record WebhookEvent =
  event_id :: string
  wevent :: string
  wdata :: jsobject

text \<open>
  \<open>executedNodes\<close> is a JavaScript \<open>Set\<close>: the list of its members in insertion order,
  with \<open>Set.prototype.add\<close> as \<open>setAdd\<close> and \<open>has\<close> as list membership.
\<close>

record ExecutionContext =
  webhookData :: WebhookEvent
  executedNodes :: "string list"
  errors :: "string list"
  flowCallStack :: "string list"
  depth :: nat

record FlowExecutionResult =
  success :: bool
  resultNodes :: "string list"
  resultErrors :: "string list"

definition setAdd :: "string \<Rightarrow> string list \<Rightarrow> string list" where
  "setAdd x xs = (if x \<in> set xs then xs else xs @ [x])"

definition pushError :: "string \<Rightarrow> ExecutionContext \<Rightarrow> ExecutionContext" where
  "pushError m c = c\<lparr>errors := errors c @ [m]\<rparr>"

subsection \<open>The collaborators\<close>

text \<open>
  The engine awaits four things outside itself: \<open>flowRepository.findById\<close>,
  \<open>flowExecutionLogRepository.create\<close> and \<open>update\<close>, and \<open>fetch\<close>. Each is a function
  of an abstract world \<open>'w\<close> that returns its outcome and the next world, so that every
  theorem holds for every behaviour of the collaborators. The JavaScript engine that
  runs the code is the fifth parameter.

  \<open>fetch\<close> receives the configuration of the action and the payload, from which the
  source builds the request (method, headers, body through \<open>interpolateVariables\<close>) before
  it awaits the answer. Its outcome \<open>Throw e\<close> is an exception of either step: one raised
  while the body is built, a rejection of the request, or the abort by the timer of
  \<open>HTTP_TIMEOUT\<close> ms, which is \<open>Throw (Error ''AbortError'' m)\<close>.
\<close>

record Response =
  ok :: bool
  status :: nat
  text_body :: "string option"

record 'w env =
  findById :: "string \<Rightarrow> 'w \<Rightarrow> Flow option res \<times> 'w"
  createLog :: "string \<Rightarrow> string \<Rightarrow> 'w \<Rightarrow> string res \<times> 'w"
  updateLog :: "string \<Rightarrow> FlowExecutionResult \<Rightarrow> 'w \<Rightarrow> unit res \<times> 'w"
  fetch :: "ActionConfig \<Rightarrow> jsobject \<Rightarrow> 'w \<Rightarrow> Response res \<times> 'w"
  runtime :: Runtime

text \<open>An awaited step of the engine: how it ended, the context and the world after it.\<close>

type_synonym 'w step = "unit res \<times> ExecutionContext \<times> 'w"

definition outcome :: "'w step \<Rightarrow> unit res" where
  "outcome r = fst r"

definition ctxOf :: "'w step \<Rightarrow> ExecutionContext" where
  "ctxOf r = fst (snd r)"

definition worldOf :: "'w step \<Rightarrow> 'w" where
  "worldOf r = snd (snd r)"

subsection \<open>The messages of the engine\<close>

definition stackText :: "string list \<Rightarrow> string" where
  "stackText st = join ('' '' @ arrow @ '' '') st"

definition depthLimitMsg :: "string list \<Rightarrow> string" where
  "depthLimitMsg st =
     ''Limite de profundidade de chamadas atingido ('' @ showNat MAX_FLOW_DEPTH @ ''). Stack: ''
       @ stackText st"

definition loopMsg :: "string \<Rightarrow> string list \<Rightarrow> string" where
  "loopMsg fid st =
     ''Loop detectado: Flow '' @ fid @ '' j'' @ a_acute @ '' foi chamado nesta cadeia. Stack: ''
       @ stackText st"

definition noNodesMsg :: string where
  "noNodesMsg = ''Flow '' @ nao @ '' possui n'' @ o_acute @ ''s''"

definition noTriggerMsg :: string where
  "noTriggerMsg = ''Flow deve ter pelo menos um '' @ no_lc @ '' Trigger''"

definition manyTriggersMsg :: string where
  "manyTriggersMsg = ''Flow '' @ nao @ '' deve ter mais de um '' @ no_lc @ '' Trigger''"

definition edgesWithoutHandleMsg :: "string \<Rightarrow> nat \<Rightarrow> string" where
  "edgesWithoutHandleMsg nid n =
     ''Condition node '' @ nid @ '' tem '' @ showNat n @ '' edge(s) sem sourceHandle. ''
       @ ''Todas as edges de condition nodes devem ter sourceHandle '' @ sq @ ''yes'' @ sq
       @ '' ou '' @ sq @ ''no'' @ sq"

definition mustStartWithTriggerMsg :: string where
  "mustStartWithTriggerMsg = ''Flow deve come'' @ c_cedilla @ ''ar com um '' @ no_lc @ '' Trigger''"

definition eventMismatchMsg :: "string option \<Rightarrow> string \<Rightarrow> string" where
  "eventMismatchMsg expected received =
     ''Evento '' @ nao @ '' corresponde: esperado '' @ dq @ showOpt expected @ dq
       @ '', recebido '' @ dq @ received @ dq"

definition fatalMsg :: "exn \<Rightarrow> string" where
  "fatalMsg e = ''Erro fatal ao executar flow: '' @ errorMessage e"

definition nodeNotFoundMsg :: "string \<Rightarrow> string" where
  "nodeNotFoundMsg nid = No_uc @ '' '' @ nid @ '' '' @ nao @ '' encontrado no flow''"

definition unknownNodeTypeMsg :: "string option \<Rightarrow> string \<Rightarrow> string" where
  "unknownNodeTypeMsg ty nid =
     ''Tipo de '' @ no_lc @ '' desconhecido: '' @ showOpt ty @ '' no '' @ no_lc @ '' '' @ nid"

definition nodeErrorMsg :: "string \<Rightarrow> exn \<Rightarrow> string" where
  "nodeErrorMsg nid e = ''Erro ao executar '' @ no_lc @ '' '' @ nid @ '': '' @ errorMessage e"

definition fieldNotConfiguredMsg :: "string \<Rightarrow> string" where
  "fieldNotConfiguredMsg nid =
     No_uc @ '' de '' @ condicao @ '' '' @ nid @ '': Campo do payload '' @ nao
       @ '' configurado. Configure o campo no editor do '' @ no_lc @ ''.''"

definition targetNotFoundMsg :: "string \<Rightarrow> string \<Rightarrow> string" where
  "targetNotFoundMsg nid tgt =
     No_uc @ '' de '' @ condicao @ '' '' @ nid @ '': '' @ No_uc @ '' de destino '' @ tgt @ '' ''
       @ nao @ '' encontrado no flow''"

definition actionPrefix :: "string \<Rightarrow> string" where
  "actionPrefix nid = No_uc @ '' de '' @ acao @ '' '' @ nid @ '': ''"

definition invalidActionDataMsg :: "string \<Rightarrow> string" where
  "invalidActionDataMsg nid =
     actionPrefix nid @ ''Dados da '' @ acao @ '' inv'' @ a_acute @ ''lidos ou '' @ nao
       @ '' configurados''"

definition unknownActionTypeMsg :: "string \<Rightarrow> string option \<Rightarrow> string" where
  "unknownActionTypeMsg nid ty =
     actionPrefix nid @ ''Tipo de '' @ acao @ '' desconhecido: '' @ showOpt ty"

definition unexpectedActionErrorMsg :: "string \<Rightarrow> exn \<Rightarrow> string" where
  "unexpectedActionErrorMsg nid e =
     ''Erro inesperado ao executar '' @ acao @ '' '' @ nid @ '': '' @ errorMessage e"

definition urlNotConfiguredMsg :: "string \<Rightarrow> string" where
  "urlNotConfiguredMsg nid = actionPrefix nid @ ''URL '' @ nao @ '' configurada para HTTP_REQUEST''"

definition httpStatusMsg :: "nat \<Rightarrow> string \<Rightarrow> string" where
  "httpStatusMsg st errorText = ''HTTP '' @ showNat st @ '': '' @ errorText"

definition timeoutMsg :: string where
  "timeoutMsg = ''Timeout ao executar HTTP_REQUEST ('' @ showNat HTTP_TIMEOUT @ ''ms)''"

definition emailNotConfiguredMsg :: "string \<Rightarrow> string" where
  "emailNotConfiguredMsg nid = actionPrefix nid @ ''Email '' @ nao @ '' configurado para SEND_EMAIL''"

definition flowIdNotConfiguredMsg :: "string \<Rightarrow> string" where
  "flowIdNotConfiguredMsg nid = actionPrefix nid @ ''FlowId '' @ nao @ '' configurado para CALL_FLOW''"

definition flowNotFoundMsg :: "string \<Rightarrow> string \<Rightarrow> string" where
  "flowNotFoundMsg nid fid = actionPrefix nid @ ''Flow '' @ fid @ '' '' @ nao @ '' encontrado''"

definition callFlowErrorMsg :: "string \<Rightarrow> exn \<Rightarrow> string" where
  "callFlowErrorMsg fid e = ''Erro ao chamar flow '' @ fid @ '': '' @ errorMessage e"

subsection \<open>validateFlow\<close>

text \<open>
  The loop \<open>for (const conditionNode of conditionNodes)\<close> of \<open>validateFlow\<close>, with the
  list of errors it pushes to.
\<close>

fun validateConditionNodes :: "Flow \<Rightarrow> Node list \<Rightarrow> string list \<Rightarrow> string list" where
  "validateConditionNodes flow [] errs = errs"
| "validateConditionNodes flow (conditionNode # rest) errs =
     (let conditionEdges = filter (\<lambda>e. source e = node_id conditionNode) (edges flow);
          edgesWithoutHandle = filter (\<lambda>e. \<not> truthy (sourceHandle e)) conditionEdges
      in validateConditionNodes flow rest
           (if length edgesWithoutHandle > 0
            then errs @ [edgesWithoutHandleMsg (node_id conditionNode) (length edgesWithoutHandle)]
            else errs))"

definition validateFlow :: "Flow \<Rightarrow> string list" where
  "validateFlow flow =
     (if length (nodes flow) = 0 then [noNodesMsg]
      else
        let triggerNodes = filter (\<lambda>n. ntype n = Some NODE_TYPES_TRIGGER) (nodes flow);
            errs = (if length triggerNodes = 0 then [noTriggerMsg]
                    else if length triggerNodes > 1 then [manyTriggersMsg]
                    else []);
            conditionNodes = filter (\<lambda>n. ntype n = Some NODE_TYPES_CONDITION) (nodes flow)
        in validateConditionNodes flow conditionNodes errs)"

subsection \<open>getNestedValue, evaluateCondition, getNextNodes, formatResult\<close>

text \<open>The loop \<open>for (const key of keys)\<close> of \<open>getNestedValue\<close>.\<close>

fun walkKeys :: "Runtime \<Rightarrow> jsval \<Rightarrow> string list \<Rightarrow> jsval" where
  "walkKeys rt current [] = current"
| "walkKeys rt current (key # keys) =
     (if current = JNull \<or> current = JUndefined then JUndefined
      else if \<not> isObjectType current then JUndefined
      else walkKeys rt (getProp rt current key) keys)"

text \<open>
  The \<open>try\<close> of \<open>getNestedValue\<close> catches nothing here: no property read of the model
  throws.
\<close>

definition getNestedValue :: "Runtime \<Rightarrow> jsobject \<Rightarrow> string \<Rightarrow> jsval" where
  "getNestedValue rt obj path =
     (if path = [] then JUndefined
      else walkKeys rt (JObj obj) (split CHR ''.'' path))"

text \<open>\<open>!condition.field || condition.field.trim() === ''\<close>\<close>

definition fieldBlank :: "string option \<Rightarrow> bool" where
  "fieldBlank f = (case f of None \<Rightarrow> True | Some s \<Rightarrow> s = [] \<or> trim s = [])"

text \<open>
  \<open>evaluateCondition\<close> returns a boolean or throws: \<open>String\<close> and \<open>Number\<close> throw on a
  value that has no primitive, and so does the template literal
  \<open>"${conditionValue}"\<close> of the log line that ends the function.
\<close>

definition evaluateCondition :: "'w env \<Rightarrow> FlowNodeData \<Rightarrow> jsobject \<Rightarrow> bool res" where
  "evaluateCondition env condition data =
     (case field condition of
        None \<Rightarrow> Return False
      | Some f \<Rightarrow>
        if fieldBlank (Some f) then Return False
        else
        let rt = runtime env;
            fieldPath0 = trim f;
            fieldPath = (if startsWith fieldPath0 DATA_PREFIX
                         then drop (length DATA_PREFIX) fieldPath0 else fieldPath0);
            fieldValue = getNestedValue rt data fieldPath;
            conditionValue = cvalue condition
        in if fieldValue = JUndefined \<or> fieldValue = JNull then Return False
           else
             bindRes
               (if operator condition = Some OP_EQUALS
                  then bindRes (js_String rt fieldValue) (\<lambda>a.
                       bindRes (js_String rt conditionValue) (\<lambda>b. Return (a = b)))
                else if operator condition = Some OP_NOT_EQUALS
                  then bindRes (js_String rt fieldValue) (\<lambda>a.
                       bindRes (js_String rt conditionValue) (\<lambda>b. Return (a \<noteq> b)))
                else if operator condition = Some OP_CONTAINS
                  then bindRes (js_String rt fieldValue) (\<lambda>a.
                       bindRes (js_String rt conditionValue) (\<lambda>b. Return (str_includes a b)))
                else if operator condition = Some OP_GREATER_THAN
                  then bindRes (js_Number rt fieldValue) (\<lambda>numValue.
                       bindRes (js_Number rt conditionValue) (\<lambda>numCondition.
                         Return (\<not> isNaN numValue \<and> \<not> isNaN numCondition
                                 \<and> js_gt numValue numCondition)))
                else if operator condition = Some OP_LESS_THAN
                  then bindRes (js_Number rt fieldValue) (\<lambda>numValue.
                       bindRes (js_Number rt conditionValue) (\<lambda>numCondition.
                         Return (\<not> isNaN numValue \<and> \<not> isNaN numCondition
                                 \<and> js_lt numValue numCondition)))
                else Return False)
               (\<lambda>result. bindRes (js_String rt conditionValue) (\<lambda>t. Return result)))"

definition getNextNodes :: "string \<Rightarrow> Flow \<Rightarrow> string list" where
  "getNextNodes nodeId flow =
     filter (\<lambda>t. t \<noteq> []) (map target (filter (\<lambda>edge. source edge = nodeId) (edges flow)))"

definition formatResult :: "ExecutionContext \<Rightarrow> FlowExecutionResult" where
  "formatResult c =
     \<lparr>success = (length (errors c) = 0), resultNodes = executedNodes c, resultErrors = errors c\<rparr>"

subsection \<open>The actions that do not re-enter the engine\<close>

definition executeLogAction :: "FlowNodeData \<Rightarrow> string \<Rightarrow> 'w \<Rightarrow> unit res \<times> 'w" where
  "executeLogAction actionData nodeId w = (Return (), w)"

definition executeHttpRequestAction ::
  "'w env \<Rightarrow> FlowNodeData \<Rightarrow> string \<Rightarrow> ExecutionContext \<Rightarrow> 'w \<Rightarrow> unit res \<times> 'w" where
  "executeHttpRequestAction env actionData nodeId c w =
     (case config actionData of
        None \<Rightarrow> (Throw (ValidationError (urlNotConfiguredMsg nodeId) ''url''), w)
      | Some cfg \<Rightarrow>
          if \<not> truthy (url cfg)
          then (Throw (ValidationError (urlNotConfiguredMsg nodeId) ''url''), w)
          else
            (case fetch env cfg (wdata (webhookData c)) w of
               (Throw e, w') \<Rightarrow>
                 (if isAbortError e then Throw (Error ''Error'' timeoutMsg) else Throw e, w')
             | (Return response, w') \<Rightarrow>
                 if \<not> ok response
                 then (Throw (Error ''Error''
                         (httpStatusMsg (status response)
                            (case text_body response of
                               None \<Rightarrow> ''Erro desconhecido''
                             | Some t \<Rightarrow> t))), w')
                 else (Return (), w')))"

definition executeEmailAction :: "FlowNodeData \<Rightarrow> string \<Rightarrow> 'w \<Rightarrow> unit res \<times> 'w" where
  "executeEmailAction actionData nodeId w =
     (case config actionData of
        None \<Rightarrow> (Throw (ValidationError (emailNotConfiguredMsg nodeId) ''email''), w)
      | Some cfg \<Rightarrow>
          if \<not> truthy (email cfg)
          then (Throw (ValidationError (emailNotConfiguredMsg nodeId) ''email''), w)
          else (Return (), w))"

text \<open>The context \<open>executeFlow\<close> starts from: a new one, or one based on the parent's.\<close>

definition initContext ::
  "Flow \<Rightarrow> WebhookEvent \<Rightarrow> ExecutionContext option \<Rightarrow> ExecutionContext" where
  "initContext flow webhookEvent parentContext =
     (case parentContext of
        Some p \<Rightarrow>
          \<lparr>webhookData = webhookEvent, executedNodes = [], errors = [],
           flowCallStack = flowCallStack p @ [flow_id flow], depth = depth p + 1\<rparr>
      | None \<Rightarrow>
          \<lparr>webhookData = webhookEvent, executedNodes = [], errors = [],
           flowCallStack = [flow_id flow], depth = 0\<rparr>)"

text \<open>
  The \<open>catch\<close> of \<open>executeCallFlowAction\<close>: a \<open>ValidationError\<close> is thrown again as it
  is, anything else is wrapped in a new \<open>Error\<close>.
\<close>

definition callFlowCatch :: "string \<Rightarrow> unit res \<times> 'w \<Rightarrow> unit res \<times> 'w" where
  "callFlowCatch fid r =
     (case r of
        (Throw e, w') \<Rightarrow>
          (if isValidationError e then Throw e else Throw (Error ''Error'' (callFlowErrorMsg fid e)), w')
      | (Return u, w') \<Rightarrow> (Return u, w'))"

text \<open>
  How \<open>Promise.all\<close> settles when its branches are run one after the other: with the
  first rejection if there is one; the context and the world are those after the last
  branch.
\<close>

definition firstRejection :: "unit res \<Rightarrow> 'w step \<Rightarrow> 'w step" where
  "firstRejection r1 r2 =
     (case r1 of Throw e \<Rightarrow> (Throw e, ctxOf r2, worldOf r2) | Return u \<Rightarrow> r2)"

subsection \<open>Notions used to state the properties\<close>

text \<open>
  The issues of \<open>validateFlow\<close> about the Trigger nodes of a flow that has nodes, and the
  edges \<open>validateFlow\<close> counts for a Condition node: those that leave it without a
  \<open>sourceHandle\<close>.
\<close>

definition triggerIssues :: "Flow \<Rightarrow> string list" where
  "triggerIssues flow =
     (let triggerNodes = filter (\<lambda>n. ntype n = Some NODE_TYPES_TRIGGER) (nodes flow)
      in if length triggerNodes = 0 then [noTriggerMsg]
         else if length triggerNodes > 1 then [manyTriggersMsg]
         else [])"

definition edgesWithoutHandle :: "Flow \<Rightarrow> Node \<Rightarrow> Edge list" where
  "edgesWithoutHandle flow n =
     filter (\<lambda>e. \<not> truthy (sourceHandle e)) (filter (\<lambda>e. source e = node_id n) (edges flow))"

definition handleIssue :: "Flow \<Rightarrow> Node \<Rightarrow> string list" where
  "handleIssue flow n =
     (if length (edgesWithoutHandle flow n) > 0
      then [edgesWithoutHandleMsg (node_id n) (length (edgesWithoutHandle flow n))]
      else [])"


text \<open>The path \<open>evaluateCondition\<close> resolves for a field: trimmed, without a leading \<open>data.\<close>\<close>

definition conditionFieldPath :: "string \<Rightarrow> string" where
  "conditionFieldPath f =
     (let p = trim f in if startsWith p DATA_PREFIX then drop (length DATA_PREFIX) p else p)"

text \<open>
  When a path of keys does not resolve from a value, in the words of the
  specification: a value on the way is not an object (it is a primitive, \<open>null\<close> or
  \<open>undefined\<close>), a key is missing (the object has no property of that name, own or
  inherited), or the value at the end of the path is \<open>null\<close> or \<open>undefined\<close>. This
  definition is written from those words, not from \<open>getNestedValue\<close>.
\<close>

fun unresolved :: "Runtime \<Rightarrow> jsval \<Rightarrow> string list \<Rightarrow> bool" where
  "unresolved rt v [] = (v = JNull \<or> v = JUndefined)"
| "unresolved rt v (key # keys) =
     (if \<not> isObjectType v then True
      else if ownProp v key = None \<and> inherited rt v key = JUndefined then True
      else unresolved rt (getProp rt v key) keys)"

text \<open>
  The field of a condition does not resolve in a payload: its path is empty, or the
  keys between the dots of the path do not resolve from the payload.
\<close>

definition fieldUnresolved :: "Runtime \<Rightarrow> jsobject \<Rightarrow> string \<Rightarrow> bool" where
  "fieldUnresolved rt data f =
     (conditionFieldPath f = []
      \<or> unresolved rt (JObj data) (split CHR ''.'' (conditionFieldPath f)))"

subsection \<open>Example flows and an example environment\<close>

text \<open>
  The JavaScript engine of the examples. An object inherits the members of
  \<open>Object.prototype\<close>, an array those of \<open>Array.prototype\<close> and then of
  \<open>Object.prototype\<close>, as in Node.js 20; \<open>__proto__\<close> answers the prototype object. The
  text of a number is its decimal numeral when the number is an integer, and the
  number of a string is the integer it spells in decimal digits, with white space
  around it and a minus sign before it allowed, and 0 for the empty string; on other
  numbers and strings the two conversions of the examples are not those of JavaScript
  (they answer \<open>NaN\<close>), and no example uses them there.
\<close>

definition objectPrototypeNames :: "string list" where
  "objectPrototypeNames =
     [''__defineGetter__'', ''__defineSetter__'', ''hasOwnProperty'', ''__lookupGetter__'',
      ''__lookupSetter__'', ''isPrototypeOf'', ''propertyIsEnumerable'', ''toString'',
      ''valueOf'', ''toLocaleString'']"

definition arrayPrototypeNames :: "string list" where
  "arrayPrototypeNames =
     [''at'', ''concat'', ''copyWithin'', ''fill'', ''find'', ''findIndex'', ''findLast'',
      ''findLastIndex'', ''lastIndexOf'', ''pop'', ''push'', ''reverse'', ''shift'',
      ''unshift'', ''slice'', ''sort'', ''splice'', ''includes'', ''indexOf'', ''join'',
      ''keys'', ''entries'', ''values'', ''forEach'', ''filter'', ''flat'', ''flatMap'',
      ''map'', ''every'', ''some'', ''reduce'', ''reduceRight'', ''toReversed'',
      ''toSorted'', ''toSpliced'', ''with'', ''toLocaleString'', ''toString'']"

definition objectMember :: "string \<Rightarrow> jsval" where
  "objectMember key =
     (if key = ''constructor'' then JFunction ''Object''
      else if key \<in> set objectPrototypeNames then JFunction key
      else JUndefined)"

definition arrayMember :: "string \<Rightarrow> jsval" where
  "arrayMember key =
     (if key = ''constructor'' then JFunction ''Array''
      else if key \<in> set arrayPrototypeNames then JFunction key
      else objectMember key)"

definition sampleInherited :: "jsval \<Rightarrow> string \<Rightarrow> jsval" where
  "sampleInherited v key =
     (case v of
        JObj ps \<Rightarrow> (if key = ''__proto__'' then JObjectPrototype else objectMember key)
      | JArr xs \<Rightarrow> (if key = ''__proto__'' then JArrayPrototype else arrayMember key)
      | JObjectPrototype \<Rightarrow> (if key = ''__proto__'' then JNull else objectMember key)
      | JArrayPrototype \<Rightarrow>
          (if key = ''__proto__'' then JObjectPrototype
           else if key = ''length'' then JNum (Fin 0)
           else arrayMember key)
      | _ \<Rightarrow> JUndefined)"

definition isDigit :: "char \<Rightarrow> bool" where
  "isDigit c = (c \<in> set ''0123456789'')"

definition digitValue :: "char \<Rightarrow> nat" where
  "digitValue c =
     (case find (\<lambda>d. digitChar d = c) [0, 1, 2, 3, 4, 5, 6, 7, 8, 9] of
        None \<Rightarrow> 0 | Some d \<Rightarrow> d)"

definition readNat :: "string \<Rightarrow> nat" where
  "readNat s = foldl (\<lambda>n c. 10 * n + digitValue c) 0 s"

definition sampleNumberToString :: "jsnum \<Rightarrow> string" where
  "sampleNumberToString n =
     (case n of
        NaN \<Rightarrow> ''NaN''
      | PosInf \<Rightarrow> ''Infinity''
      | NegInf \<Rightarrow> ''-Infinity''
      | Fin q \<Rightarrow>
          (if q = of_int \<lfloor>q\<rfloor>
           then (if q < 0 then ''-'' else []) @ showNat (nat \<bar>\<lfloor>q\<rfloor>\<bar>)
           else ''NaN''))"

definition sampleStringToNumber :: "string \<Rightarrow> jsnum" where
  "sampleStringToNumber s =
     (let t = trim s in
      if t = [] then Fin 0
      else if list_all isDigit t then Fin (of_nat (readNat t))
      else if hd t = CHR ''-'' \<and> tl t \<noteq> [] \<and> list_all isDigit (tl t)
        then Fin (- of_nat (readNat (tl t)))
      else NaN)"

definition sampleRuntime :: Runtime where
  "sampleRuntime =
     \<lparr>inherited = sampleInherited, numberToString = sampleNumberToString,
      stringToNumber = sampleStringToNumber\<rparr>"

text \<open>
  The environment of the examples answers every request with status 200, finds the
  flows of a given table, and keeps the results written to the execution log as its
  world.
\<close>

type_synonym logbook = "(string \<times> FlowExecutionResult) list"

definition sampleEnv :: "(string \<Rightarrow> Flow option) \<Rightarrow> logbook env" where
  "sampleEnv repo =
     \<lparr>findById = (\<lambda>fid w. (Return (repo fid), w)),
      createLog = (\<lambda>fid eid w. (Return (''log-'' @ fid), w)),
      updateLog = (\<lambda>i r w. (Return (), w @ [(i, r)])),
      fetch = (\<lambda>cfg d w. (Return \<lparr>ok = True, status = 200, text_body = Some []\<rparr>, w)),
      runtime = sampleRuntime\<rparr>"

definition noData :: FlowNodeData where
  "noData = \<lparr>event = None, field = None, operator = None, cvalue = JUndefined,
             atype = None, config = None\<rparr>"

definition noConfig :: ActionConfig where
  "noConfig =
     \<lparr>message = None, url = None, http_method = None, headers = None, body = None,
      email = None, subject = None, flowId = None, cfg_data = None\<rparr>"

definition mkTrigger :: "string \<Rightarrow> string \<Rightarrow> Node" where
  "mkTrigger i ev =
     \<lparr>node_id = i, ntype = Some ''trigger'', ndata = Some (noData\<lparr>event := Some ev\<rparr>)\<rparr>"

definition mkCondition :: "string \<Rightarrow> string option \<Rightarrow> string \<Rightarrow> jsval \<Rightarrow> Node" where
  "mkCondition i f op v =
     \<lparr>node_id = i, ntype = Some ''condition'',
      ndata = Some (noData\<lparr>field := f, operator := Some op, cvalue := v\<rparr>)\<rparr>"

definition mkAction :: "string \<Rightarrow> string \<Rightarrow> ActionConfig \<Rightarrow> Node" where
  "mkAction i ty cfg =
     \<lparr>node_id = i, ntype = Some ''action'',
      ndata = Some (noData\<lparr>atype := Some ty, config := Some cfg\<rparr>)\<rparr>"

definition mkEnd :: "string \<Rightarrow> Node" where
  "mkEnd i = \<lparr>node_id = i, ntype = Some ''end'', ndata = Some noData\<rparr>"

definition mkEdge :: "string \<Rightarrow> string \<Rightarrow> string option \<Rightarrow> Edge" where
  "mkEdge s t h = \<lparr>edge_id = s @ ''-'' @ t, source = s, target = t, sourceHandle = h\<rparr>"

definition leadFlow :: Flow where
  "leadFlow =
     \<lparr>flow_id = ''lead'', name = ''Lead'', active = True,
      nodes = [mkTrigger ''t'' ''lead.converted'',
               mkCondition ''c'' (Some ''data.lead.source'') ''EQUALS'' (JStr ''whatsapp''),
               mkAction ''a'' ''HTTP_REQUEST'' (noConfig\<lparr>url := Some ''https://example.org/hook''\<rparr>),
               mkEnd ''e''],
      edges = [mkEdge ''t'' ''c'' None, mkEdge ''c'' ''a'' (Some ''yes''), mkEdge ''a'' ''e'' None]\<rparr>"

definition leadEvent :: "string \<Rightarrow> WebhookEvent" where
  "leadEvent src =
     \<lparr>event_id = ''ev1'', wevent = ''lead.converted'',
      wdata = [(''lead'', JObj [(''source'', JStr src)])]\<rparr>"

definition emptyRepo :: "string \<Rightarrow> Flow option" where
  "emptyRepo fid = None"

definition sampleParent :: "string list \<Rightarrow> nat \<Rightarrow> ExecutionContext" where
  "sampleParent st d =
     \<lparr>webhookData = leadEvent ''whatsapp'', executedNodes = [''a''], errors = [],
      flowCallStack = st, depth = d\<rparr>"

definition loopFlow :: Flow where
  "loopFlow =
     \<lparr>flow_id = ''loop'', name = ''Loop'', active = True,
      nodes = [mkTrigger ''t'' ''lead.converted'', mkAction ''l'' ''LOG'' noConfig, mkEnd ''e''],
      edges = [mkEdge ''t'' ''l'' None, mkEdge ''l'' ''t'' None, mkEdge ''l'' ''e'' None,
               mkEdge ''t'' ''e'' None]\<rparr>"

definition afterTrigger :: ExecutionContext where
  "afterTrigger =
     \<lparr>webhookData = leadEvent ''whatsapp'', executedNodes = [''t''], errors = [],
      flowCallStack = [''loop''], depth = 0\<rparr>"

definition leadCondition :: Node where
  "leadCondition = mkCondition ''c'' (Some ''data.lead.source'') ''EQUALS'' (JStr ''whatsapp'')"

definition atCondition :: "string \<Rightarrow> ExecutionContext" where
  "atCondition src =
     \<lparr>webhookData = leadEvent src, executedNodes = [''t'', ''c''], errors = [],
      flowCallStack = [''lead''], depth = 0\<rparr>"

definition otherEvent :: WebhookEvent where
  "otherEvent =
     \<lparr>event_id = ''ev2'', wevent = ''lead.created'',
      wdata = [(''lead'', JObj [(''source'', JStr ''whatsapp'')])]\<rparr>"

definition callFlowNode :: "string option \<Rightarrow> Node" where
  "callFlowNode fid = mkAction ''a'' ''CALL_FLOW'' (noConfig\<lparr>flowId := fid\<rparr>)"

definition callFlow0 :: "string option \<Rightarrow> Flow" where
  "callFlow0 fid =
     \<lparr>flow_id = ''caller'', name = ''Caller'', active = True,
      nodes = [mkTrigger ''t'' ''lead.converted'', callFlowNode fid, mkEnd ''e''],
      edges = [mkEdge ''t'' ''a'' None, mkEdge ''a'' ''e'' None]\<rparr>"

definition afterAction :: ExecutionContext where
  "afterAction =
     \<lparr>webhookData = leadEvent ''whatsapp'', executedNodes = [''t'', ''a''], errors = [],
      flowCallStack = [''caller''], depth = 0\<rparr>"

definition maybeFlow :: Flow where
  "maybeFlow =
     \<lparr>flow_id = ''maybe'', name = ''Maybe'', active = True,
      nodes = [mkTrigger ''t'' ''lead.converted'',
               mkCondition ''c'' (Some ''data.lead.source'') ''EQUALS'' (JStr ''whatsapp''),
               mkEnd ''e''],
      edges = [mkEdge ''t'' ''c'' None, mkEdge ''c'' ''e'' (Some ''maybe'')]\<rparr>"

definition blankCondition :: Node where
  "blankCondition = mkCondition ''c'' (Some ''  '') ''EQUALS'' (JStr ''whatsapp'')"

definition blankFlow :: Flow where
  "blankFlow =
     \<lparr>flow_id = ''blank'', name = ''Blank'', active = True,
      nodes = [mkTrigger ''t'' ''lead.converted'', blankCondition, mkEnd ''e''],
      edges = [mkEdge ''t'' ''c'' None, mkEdge ''c'' ''e'' (Some ''yes''),
               mkEdge ''c'' ''e'' (Some ''no'')]\<rparr>"

definition chainFlow :: "string \<Rightarrow> string \<Rightarrow> Flow" where
  "chainFlow fid next =
     \<lparr>flow_id = fid, name = fid, active = True,
      nodes = [mkTrigger ''t'' ''lead.converted'',
               mkAction ''a'' ''CALL_FLOW'' (noConfig\<lparr>flowId := Some next\<rparr>), mkEnd ''e''],
      edges = [mkEdge ''t'' ''a'' None, mkEdge ''a'' ''e'' None]\<rparr>"

definition pingPongRepo :: "string \<Rightarrow> Flow option" where
  "pingPongRepo = map_of [(''ping'', chainFlow ''ping'' ''pong''), (''pong'', chainFlow ''pong'' ''ping'')]"

definition chainRepo :: "string \<Rightarrow> Flow option" where
  "chainRepo =
     map_of [(''f1'', chainFlow ''f1'' ''f2''), (''f2'', chainFlow ''f2'' ''f3''),
             (''f3'', chainFlow ''f3'' ''f4''), (''f4'', chainFlow ''f4'' ''f5''),
             (''f5'', chainFlow ''f5'' ''f6''), (''f6'', chainFlow ''f6'' ''f7'')]"

definition timeoutEnv :: "logbook env" where
  "timeoutEnv =
     (sampleEnv emptyRepo)
       \<lparr>fetch := (\<lambda>cfg d w. (Throw (Error ''AbortError'' ''This operation was aborted''), w))\<rparr>"

definition failingEnv :: "logbook env" where
  "failingEnv =
     (sampleEnv emptyRepo)
       \<lparr>fetch := (\<lambda>cfg d w. (Return \<lparr>ok = False, status = 503, text_body = Some ''busy''\<rparr>, w))\<rparr>"

definition sleepyRepo :: "string \<Rightarrow> Flow option" where
  "sleepyRepo = map_of [(''sleepy'', (chainFlow ''sleepy'' ''nobody'')\<lparr>active := False\<rparr>)]"

text \<open>
  A flow whose Trigger node is stored without data, a flow whose Condition node sends
  its \<open>yes\<close> branch to a node stored without a type, and a flow whose Condition node
  fans out on its \<open>yes\<close> branch: to the node \<open>x\<close> stored without a type, to the End node
  \<open>e1\<close>, to the LOG action \<open>a\<close> followed by the End node \<open>e2\<close>, and to \<open>ghost\<close>, which
  is not a node of the flow; the End node \<open>n\<close> is on the \<open>no\<close> branch.
\<close>

definition bareTrigger :: Node where
  "bareTrigger = \<lparr>node_id = ''t'', ntype = Some ''trigger'', ndata = None\<rparr>"

definition bareFlow :: Flow where
  "bareFlow =
     \<lparr>flow_id = ''bare'', name = ''Bare'', active = True,
      nodes = [bareTrigger, mkEnd ''e''],
      edges = [mkEdge ''t'' ''e'' None]\<rparr>"

definition untypedNode :: Node where
  "untypedNode = \<lparr>node_id = ''x'', ntype = None, ndata = Some noData\<rparr>"

definition untypedFlow :: Flow where
  "untypedFlow =
     \<lparr>flow_id = ''untyped'', name = ''Untyped'', active = True,
      nodes = [mkTrigger ''t'' ''lead.converted'',
               mkCondition ''c'' (Some ''data.lead.source'') ''EQUALS'' (JStr ''whatsapp''),
               untypedNode],
      edges = [mkEdge ''t'' ''c'' None, mkEdge ''c'' ''x'' (Some ''yes'')]\<rparr>"

definition fanFlow :: Flow where
  "fanFlow =
     \<lparr>flow_id = ''fan'', name = ''Fan'', active = True,
      nodes = [mkTrigger ''t'' ''lead.converted'',
               mkCondition ''c'' (Some ''data.lead.source'') ''EQUALS'' (JStr ''whatsapp''),
               untypedNode, mkEnd ''e1'', mkAction ''a'' ''LOG'' noConfig, mkEnd ''e2'',
               mkEnd ''n''],
      edges = [mkEdge ''t'' ''c'' None, mkEdge ''c'' ''x'' (Some ''yes''),
               mkEdge ''c'' ''n'' (Some ''no''), mkEdge ''c'' ''e1'' (Some ''yes''),
               mkEdge ''c'' ''a'' (Some ''yes''), mkEdge ''c'' ''ghost'' (Some ''yes''),
               mkEdge ''a'' ''e2'' None]\<rparr>"

definition atFan :: ExecutionContext where
  "atFan =
     \<lparr>webhookData = leadEvent ''whatsapp'', executedNodes = [''t'', ''c''], errors = [],
      flowCallStack = [''fan''], depth = 0\<rparr>"

subsection \<open>The traversal engine\<close>

text \<open>
  \<open>executeFlow\<close>, \<open>executeNode\<close>, \<open>executeTrigger\<close>, \<open>executeCondition\<close>, \<open>executeAction\<close>
  and \<open>executeCallFlowAction\<close> of the source call each other. Two loops of the source
  are functions of their own: \<open>executeNodes\<close> is
  \<open>for (const nextNodeId of nextNodes) await this.executeNode(nextNodeId, flow, context)\<close>,
  which stops at the first exception, and \<open>executeTargets\<close> is
  \<open>await Promise.all(targetEdges.map(async (targetEdge) => ...))\<close>.

  A step takes the context and the world and returns them with its outcome, since the
  context is one mutable object: what a step pushed before it threw stays pushed.

  The limit of the model is the order inside \<open>Promise.all\<close>. The source starts every
  branch in the order of the edges and lets each run until it first waits for
  something; a branch that waits (at an action) goes on only after the later branches
  have started. \<open>executeTargets\<close> runs each branch to its end before it starts the
  next. A branch that does not wait (its target is already executed, is missing or has
  no type, is an End node, or is a Condition node from which no action is reached) is
  over where the source has it over, so the lists \<open>executedNodes\<close> and \<open>errors\<close> are
  those of the source as long as only the last branch that executes something waits.
  When an earlier branch waits, the source may add the same entries to the two lists
  in another order. Which nodes are executed does not depend on that order: a node is
  tested and marked in one step that nothing interrupts, and no branch undoes what
  another did. The properties below that involve a fan-out are therefore stated about
  membership in the lists, not about positions.
\<close>

text \<open>
  The measure of the recursion. A call of \<open>executeFlow\<close> from \<open>executeCallFlowAction\<close>
  is one level deeper, and from the depth \<open>MAX_FLOW_DEPTH\<close> on \<open>executeFlow\<close> does not
  start a traversal; inside one invocation every node that runs is new in
  \<open>executedNodes\<close>, so the number of nodes of the flow not yet executed goes down; the
  loops go down their lists.
\<close>

definition unvisited :: "Flow \<Rightarrow> ExecutionContext \<Rightarrow> nat" where
  "unvisited flow c = card (node_id ` set (nodes flow) - set (executedNodes c))"

definition flowRank :: "nat \<Rightarrow> nat" where
  "flowRank d = (if d < MAX_FLOW_DEPTH then 2 * (MAX_FLOW_DEPTH - d) + 2 else 0)"

definition stepRank :: "nat \<Rightarrow> nat" where
  "stepRank d = 2 * (MAX_FLOW_DEPTH - d) + 1"

definition engineMeasure ::
  "((('w env \<times> Flow \<times> WebhookEvent \<times> ExecutionContext option \<times> 'w) +
     ('w env \<times> string \<times> Flow \<times> ExecutionContext \<times> 'w)) +
    (('w env \<times> string list \<times> Flow \<times> ExecutionContext \<times> 'w) +
     ('w env \<times> Node \<times> Flow \<times> ExecutionContext \<times> 'w))) +
   ((('w env \<times> Node \<times> Flow \<times> ExecutionContext \<times> 'w) +
     ('w env \<times> Node \<times> Edge list \<times> Flow \<times> ExecutionContext \<times> 'w)) +
    (('w env \<times> Node \<times> Flow \<times> ExecutionContext \<times> 'w) +
     ('w env \<times> FlowNodeData \<times> string \<times> ExecutionContext \<times> 'w)))
   \<Rightarrow> nat \<times> nat \<times> nat" where
  "engineMeasure x =
     (case x of
        Inl (Inl (Inl (env, flow, ev, parent, w))) \<Rightarrow>
          (flowRank (depth (initContext flow ev parent)), 0, 0)
      | Inl (Inl (Inr (env, nodeId, flow, c, w))) \<Rightarrow> (stepRank (depth c), unvisited flow c, 0)
      | Inl (Inr (Inl (env, ids, flow, c, w))) \<Rightarrow>
          (stepRank (depth c), unvisited flow c, 1 + length ids)
      | Inl (Inr (Inr (env, node, flow, c, w))) \<Rightarrow>
          (stepRank (depth c), unvisited flow c, 2 + length (edges flow))
      | Inr (Inl (Inl (env, node, flow, c, w))) \<Rightarrow>
          (stepRank (depth c), unvisited flow c, 2 + length (edges flow))
      | Inr (Inl (Inr (env, node, es, flow, c, w))) \<Rightarrow>
          (stepRank (depth c), unvisited flow c, 1 + length es)
      | Inr (Inr (Inl (env, node, flow, c, w))) \<Rightarrow>
          (stepRank (depth c), unvisited flow c, 2 + length (edges flow))
      | Inr (Inr (Inr (env, actionData, nodeId, c, w))) \<Rightarrow>
          (stepRank (depth c), 0, 0))"

text \<open>
  What every step keeps of the context it is given: the event, the call stack and the
  depth are the same, \<open>executedNodes\<close> and \<open>errors\<close> only grow at their ends, and
  \<open>executedNodes\<close> stays free of duplicates.
\<close>

definition extends :: "ExecutionContext \<Rightarrow> ExecutionContext \<Rightarrow> bool" where
  "extends c c' =
     (webhookData c' = webhookData c \<and> flowCallStack c' = flowCallStack c \<and> depth c' = depth c
      \<and> prefix (executedNodes c) (executedNodes c') \<and> prefix (errors c) (errors c')
      \<and> (distinct (executedNodes c) \<longrightarrow> distinct (executedNodes c')))"

function
  executeFlow ::
    "'w env \<Rightarrow> Flow \<Rightarrow> WebhookEvent \<Rightarrow> ExecutionContext option \<Rightarrow> 'w
       \<Rightarrow> FlowExecutionResult res \<times> 'w"
  and executeNode :: "'w env \<Rightarrow> string \<Rightarrow> Flow \<Rightarrow> ExecutionContext \<Rightarrow> 'w \<Rightarrow> 'w step"
  and executeNodes :: "'w env \<Rightarrow> string list \<Rightarrow> Flow \<Rightarrow> ExecutionContext \<Rightarrow> 'w \<Rightarrow> 'w step"
  and executeTrigger :: "'w env \<Rightarrow> Node \<Rightarrow> Flow \<Rightarrow> ExecutionContext \<Rightarrow> 'w \<Rightarrow> 'w step"
  and executeCondition :: "'w env \<Rightarrow> Node \<Rightarrow> Flow \<Rightarrow> ExecutionContext \<Rightarrow> 'w \<Rightarrow> 'w step"
  and executeTargets ::
    "'w env \<Rightarrow> Node \<Rightarrow> Edge list \<Rightarrow> Flow \<Rightarrow> ExecutionContext \<Rightarrow> 'w \<Rightarrow> 'w step"
  and executeAction :: "'w env \<Rightarrow> Node \<Rightarrow> Flow \<Rightarrow> ExecutionContext \<Rightarrow> 'w \<Rightarrow> 'w step"
  and executeCallFlowAction ::
    "'w env \<Rightarrow> FlowNodeData \<Rightarrow> string \<Rightarrow> ExecutionContext \<Rightarrow> 'w \<Rightarrow> unit res \<times> 'w"
where
  "executeFlow env flow webhookEvent parentContext w =
     (let c0 = initContext flow webhookEvent parentContext in
      if depth c0 \<ge> MAX_FLOW_DEPTH
      then (Return (formatResult (pushError (depthLimitMsg (flowCallStack c0)) c0)), w)
      else if length (filter (\<lambda>i. i = flow_id flow) (flowCallStack c0)) > 1
      then (Return (formatResult (pushError (loopMsg (flow_id flow) (flowCallStack c0)) c0)), w)
      else
        let validationErrors = validateFlow flow in
        if length validationErrors > 0
        then (Return (formatResult (c0\<lparr>errors := errors c0 @ validationErrors\<rparr>)), w)
        else
          (case List.find (\<lambda>node. ntype node = Some NODE_TYPES_TRIGGER) (nodes flow) of
             None \<Rightarrow> (Return (formatResult (pushError mustStartWithTriggerMsg c0)), w)
           | Some triggerNode \<Rightarrow>
               (case ndata triggerNode of
                  None \<Rightarrow> (Throw (typeError (cannotReadMsg ''event'')), w)
                | Some triggerData \<Rightarrow>
                    if depth c0 = 0 \<and> event triggerData \<noteq> Some (wevent webhookEvent)
                    then (Return (formatResult
                            (pushError (eventMismatchMsg (event triggerData) (wevent webhookEvent))
                               c0)), w)
                    else
                      (let r = executeNode env (node_id triggerNode) flow c0 w in
                       case outcome r of
                         Return u \<Rightarrow> (Return (formatResult (ctxOf r)), worldOf r)
                       | Throw e \<Rightarrow>
                           (Return (formatResult (pushError (fatalMsg e) (ctxOf r))),
                            worldOf r)))))"
| "executeNode env nodeId flow c w =
     (if nodeId \<in> set (executedNodes c) then (Return (), c, w)
      else
        (case List.find (\<lambda>n. node_id n = nodeId) (nodes flow) of
           None \<Rightarrow> (Return (), pushError (nodeNotFoundMsg nodeId) c, w)
         | Some node \<Rightarrow>
             let c1 = c\<lparr>executedNodes := setAdd nodeId (executedNodes c)\<rparr>;
                 r = (if ntype node = Some NODE_TYPES_TRIGGER then executeTrigger env node flow c1 w
                      else if ntype node = Some NODE_TYPES_CONDITION
                        then executeCondition env node flow c1 w
                      else if ntype node = Some NODE_TYPES_ACTION
                        then executeAction env node flow c1 w
                      else if ntype node = Some NODE_TYPES_END then (Return (), c1, w)
                      else (Return (), pushError (unknownNodeTypeMsg (ntype node) nodeId) c1, w))
             in
               (case outcome r of
                  Return u \<Rightarrow> r
                | Throw e \<Rightarrow>
                    let c2 = pushError (nodeErrorMsg nodeId e) (ctxOf r) in
                    if ntype node = Some NODE_TYPES_CONDITION then (Return (), c2, worldOf r)
                    else if ntype node \<noteq> Some NODE_TYPES_ACTION
                          \<and> ntype node \<noteq> Some NODE_TYPES_CONDITION
                    then executeNodes env (getNextNodes nodeId flow) flow c2 (worldOf r)
                    else (Return (), c2, worldOf r))))"
| "executeNodes env [] flow c w = (Return (), c, w)"
| "executeNodes env (nextNodeId # rest) flow c w =
     (let r = executeNode env nextNodeId flow c w in
      case outcome r of
        Return u \<Rightarrow> executeNodes env rest flow (ctxOf r) (worldOf r)
      | Throw e \<Rightarrow> r)"
| "executeTrigger env node flow c w =
     (let nextNodes = getNextNodes (node_id node) flow in
      if length nextNodes = 0 then (Return (), c, w)
      else executeNodes env nextNodes flow c w)"
| "executeCondition env node flow c w =
     (case ndata node of
        None \<Rightarrow> (Throw (typeError (cannotReadMsg ''field'')), c, w)
      | Some conditionData \<Rightarrow>
          if fieldBlank (field conditionData)
          then (Return (), pushError (fieldNotConfiguredMsg (node_id node)) c, w)
          else
            (case evaluateCondition env conditionData (wdata (webhookData c)) of
               Throw e \<Rightarrow> (Throw e, c, w)
             | Return conditionMet \<Rightarrow>
                 let edges' = filter (\<lambda>edge. source edge = node_id node) (edges flow);
                     expectedHandle =
                       (if conditionMet then CONDITION_HANDLES_YES else CONDITION_HANDLES_NO);
                     targetEdges = filter (\<lambda>edge. sourceHandle edge = Some expectedHandle) edges'
                 in (case js_String (runtime env) (cvalue conditionData) of
                       Throw e \<Rightarrow> (Throw e, c, w)
                     | Return valueText \<Rightarrow>
                         if length targetEdges = 0 then (Return (), c, w)
                         else executeTargets env node targetEdges flow c w)))"
| "executeTargets env node [] flow c w = (Return (), c, w)"
| "executeTargets env node (targetEdge # rest) flow c w =
     (let r1 = (case List.find (\<lambda>n. node_id n = target targetEdge) (nodes flow) of
                  None \<Rightarrow>
                    (Return (), pushError (targetNotFoundMsg (node_id node) (target targetEdge)) c, w)
                | Some targetNode \<Rightarrow>
                    if truthy (ntype targetNode)
                    then executeNode env (target targetEdge) flow c w
                    else (Return (),
                          pushError (targetNotFoundMsg (node_id node) (target targetEdge)) c, w))
      in firstRejection (outcome r1) (executeTargets env node rest flow (ctxOf r1) (worldOf r1)))"
| "executeAction env node flow c w =
     (case (case ndata node of
              None \<Rightarrow> None
            | Some d \<Rightarrow> if truthy (atype d) then Some d else None) of
        None \<Rightarrow>
          executeNodes env (getNextNodes (node_id node) flow) flow
            (pushError (invalidActionDataMsg (node_id node)) c) w
      | Some actionData \<Rightarrow>
        let r = (if atype actionData = Some ACTION_TYPES_LOG
                   then (let a = executeLogAction actionData (node_id node) w in (fst a, c, snd a))
                 else if atype actionData = Some ACTION_TYPES_HTTP_REQUEST
                   then (let a = executeHttpRequestAction env actionData (node_id node) c w
                         in (fst a, c, snd a))
                 else if atype actionData = Some ACTION_TYPES_SEND_EMAIL
                   then (let a = executeEmailAction actionData (node_id node) w in (fst a, c, snd a))
                 else if atype actionData = Some ACTION_TYPES_CALL_FLOW
                   then (let a = executeCallFlowAction env actionData (node_id node) c w
                         in (fst a, c, snd a))
                 else (Return (),
                       pushError (unknownActionTypeMsg (node_id node) (atype actionData)) c, w));
            c2 = (case outcome r of
                    Return u \<Rightarrow> ctxOf r
                  | Throw e \<Rightarrow> pushError (unexpectedActionErrorMsg (node_id node) e) (ctxOf r))
        in executeNodes env (getNextNodes (node_id node) flow) flow c2 (worldOf r))"
| "executeCallFlowAction env actionData nodeId c w =
     (case (case config actionData of None \<Rightarrow> None | Some cfg \<Rightarrow> flowId cfg) of
        None \<Rightarrow> (Throw (ValidationError (flowIdNotConfiguredMsg nodeId) ''flowId''), w)
      | Some fid \<Rightarrow>
          if fid = []
          then (Throw (ValidationError (flowIdNotConfiguredMsg nodeId) ''flowId''), w)
          else
            callFlowCatch fid
              (let found = findById env fid w in
               case fst found of
                 Throw e \<Rightarrow> (Throw e, snd found)
               | Return None \<Rightarrow>
                   (Throw (ValidationError (flowNotFoundMsg nodeId fid) ''flowId''), snd found)
               | Return (Some targetFlow) \<Rightarrow>
                   if \<not> active targetFlow then (Return (), snd found)
                   else
                     let mergedData =
                           spread (wdata (webhookData c))
                             (case (case config actionData of None \<Rightarrow> None
                                    | Some cfg \<Rightarrow> cfg_data cfg) of
                                None \<Rightarrow> [] | Some d \<Rightarrow> d);
                         syntheticWebhookEvent = (webhookData c)\<lparr>wdata := mergedData\<rparr>;
                         created = createLog env (flow_id targetFlow) (event_id (webhookData c))
                                     (snd found);
                         callFlowLogId = (case fst created of Return i \<Rightarrow> Some i | Throw e \<Rightarrow> None);
                         called = executeFlow env targetFlow syntheticWebhookEvent (Some c)
                                    (snd created)
                     in (case fst called of
                           Throw e \<Rightarrow> (Throw e, snd called)
                         | Return result \<Rightarrow>
                             (case callFlowLogId of
                                None \<Rightarrow> (Return (), snd called)
                              | Some i \<Rightarrow>
                                  if i = [] then (Return (), snd called)
                                  else (Return (), snd (updateLog env i result (snd called)))))))"
  by pat_completeness auto

subsection \<open>Termination of the engine\<close>

abbreviation engine_dom where
  "engine_dom \<equiv> executeFlow_executeNode_executeNodes_executeTrigger_executeCondition_executeTargets_executeAction_executeCallFlowAction_dom"

lemmas engine_pinduct = executeFlow_executeNode_executeNodes_executeTrigger_executeCondition_executeTargets_executeAction_executeCallFlowAction.pinduct

lemma extends_refl [simp]: "extends c c"
  by (simp add: extends_def)

lemma extends_trans: "extends a b \<Longrightarrow> extends b c \<Longrightarrow> extends a c"
  unfolding extends_def by (metis prefix_order.trans)

lemma extends_pushError [simp]: "extends c (pushError m c)"
  by (simp add: extends_def pushError_def)

lemma extends_pushError': "extends a b \<Longrightarrow> extends a (pushError m b)"
  by (rule extends_trans[OF _ extends_pushError])

lemma extends_mark: "extends c (c\<lparr>executedNodes := setAdd n (executedNodes c)\<rparr>)"
  by (auto simp: extends_def setAdd_def)

lemma ctxOf_simp [simp]: "ctxOf (a, b, c) = b"
  by (simp add: ctxOf_def)

lemma outcome_simp [simp]: "outcome (a, b, c) = a"
  by (simp add: outcome_def)

lemma worldOf_simp [simp]: "worldOf (a, b, c) = c"
  by (simp add: worldOf_def)

lemma ctxOf_firstRejection [simp]: "ctxOf (firstRejection r1 r2) = ctxOf r2"
  by (cases r1) (simp_all add: firstRejection_def)

lemma engine_extends_dom:
  "engine_dom (Inl (Inl (Inl (env, flow, ev, parent, w)))) \<Longrightarrow> True"
  "engine_dom (Inl (Inl (Inr (env, nodeId, flow, c, w)))) \<Longrightarrow>
     extends c (ctxOf (executeNode env nodeId flow c w))"
  "engine_dom (Inl (Inr (Inl (env, ids, flow, c, w)))) \<Longrightarrow>
     extends c (ctxOf (executeNodes env ids flow c w))"
  "engine_dom (Inl (Inr (Inr (env, node, flow, c, w)))) \<Longrightarrow>
     extends c (ctxOf (executeTrigger env node flow c w))"
  "engine_dom (Inr (Inl (Inl (env, node, flow, c, w)))) \<Longrightarrow>
     extends c (ctxOf (executeCondition env node flow c w))"
  "engine_dom (Inr (Inl (Inr (env, node, es, flow, c, w)))) \<Longrightarrow>
     extends c (ctxOf (executeTargets env node es flow c w))"
  "engine_dom (Inr (Inr (Inl (env, node, flow, c, w)))) \<Longrightarrow>
     extends c (ctxOf (executeAction env node flow c w))"
  "engine_dom (Inr (Inr (Inr (env, actionData, nodeId, c, w)))) \<Longrightarrow> True"
proof (induct rule: engine_pinduct)
  case (1 env flow webhookEvent parentContext w)
  show ?case by simp
next
  case (2 env nodeId flow c w)
  show ?case
  proof (cases "nodeId \<in> set (executedNodes c)")
    case True
    with 2(1) show ?thesis by (simp add: executeNode.psimps)
  next
    case nv: False
    show ?thesis
    proof (cases "find (\<lambda>n. node_id n = nodeId) (nodes flow)")
      case None
      with 2(1) nv show ?thesis by (simp add: executeNode.psimps)
    next
      case (Some node)
      let ?c1 = "c\<lparr>executedNodes := setAdd nodeId (executedNodes c)\<rparr>"
      let ?r = "if ntype node = Some NODE_TYPES_TRIGGER then executeTrigger env node flow ?c1 w
                else if ntype node = Some NODE_TYPES_CONDITION
                  then executeCondition env node flow ?c1 w
                else if ntype node = Some NODE_TYPES_ACTION
                  then executeAction env node flow ?c1 w
                else if ntype node = Some NODE_TYPES_END then (Return (), ?c1, w)
                else (Return (), pushError (unknownNodeTypeMsg (ntype node) nodeId) ?c1, w)"
      have e1: "extends c ?c1" by (rule extends_mark)
      have "extends ?c1 (ctxOf ?r)"
        using 2(2)[OF nv Some refl] 2(3)[OF nv Some refl] 2(4)[OF nv Some refl] by simp
      with e1 have er: "extends c (ctxOf ?r)" by (rule extends_trans)
      show ?thesis
      proof (cases "outcome ?r")
        case (Return u)
        with 2(1) nv Some er show ?thesis by (simp add: executeNode.psimps Let_def)
      next
        case (Throw e)
        let ?c2 = "pushError (nodeErrorMsg nodeId e) (ctxOf ?r)"
        have e2: "extends c ?c2" using er by (rule extends_pushError')
        show ?thesis
        proof (cases "ntype node = Some NODE_TYPES_CONDITION \<or> ntype node = Some NODE_TYPES_ACTION")
          case True
          with 2(1) nv Some e2 Throw show ?thesis
            by (auto simp: executeNode.psimps Let_def)
        next
          case False
          then have n1: "ntype node \<noteq> Some NODE_TYPES_CONDITION"
            and n2: "ntype node \<noteq> Some NODE_TYPES_ACTION \<and> ntype node \<noteq> Some NODE_TYPES_CONDITION"
            by auto
          have "extends ?c2 (ctxOf (executeNodes env (getNextNodes nodeId flow) flow ?c2 (worldOf ?r)))"
            by (rule 2(5)[OF nv Some refl refl Throw refl n1 n2])
          with e2 have "extends c (ctxOf (executeNodes env (getNextNodes nodeId flow) flow ?c2 (worldOf ?r)))"
            by (rule extends_trans)
          with 2(1) nv Some Throw False show ?thesis
            by (simp add: executeNode.psimps Let_def)
        qed
      qed
    qed
  qed
next
  case (3 env flow c w)
  then show ?case by (simp add: executeNodes.psimps)
next
  case (4 env nextNodeId rest flow c w)
  show ?case
  proof (cases "outcome (executeNode env nextNodeId flow c w)")
    case (Return u)
    with 4 show ?thesis
      by (auto simp: executeNodes.psimps Let_def intro: extends_trans)
  next
    case (Throw e)
    with 4 show ?thesis
      by (simp add: executeNodes.psimps Let_def)
  qed
next
  case (5 env node flow c w)
  then show ?case by (simp add: executeTrigger.psimps Let_def)
next
  case (6 env node flow c w)
  show ?case
  proof (cases "ndata node")
    case None
    with 6(1) show ?thesis by (simp add: executeCondition.psimps)
  next
    case (Some d)
    show ?thesis
    proof (cases "fieldBlank (field d)")
      case True
      with 6(1) Some show ?thesis by (simp add: executeCondition.psimps)
    next
      case nb: False
      show ?thesis
      proof (cases "evaluateCondition env d (wdata (webhookData c))")
        case (Throw e)
        with 6(1) Some nb show ?thesis by (simp add: executeCondition.psimps)
      next
        case (Return b)
        show ?thesis
        proof (cases "js_String (runtime env) (cvalue d)")
          case (Throw e)
          with 6(1) Some nb Return show ?thesis by (simp add: executeCondition.psimps Let_def)
        next
          case rs: (Return s)
          let ?es = "filter (\<lambda>edge. sourceHandle edge =
                               Some (if b then CONDITION_HANDLES_YES else CONDITION_HANDLES_NO))
                       (filter (\<lambda>edge. source edge = node_id node) (edges flow))"
          show ?thesis
          proof (cases "length ?es = 0")
            case True
            with 6(1) Some nb Return rs show ?thesis
              by (simp add: executeCondition.psimps Let_def)
          next
            case False
            have "extends c (ctxOf (executeTargets env node ?es flow c w))"
              by (rule 6(2)[OF Some nb Return refl refl refl rs False])
            with 6(1) Some nb Return rs False show ?thesis
              by (simp add: executeCondition.psimps Let_def)
          qed
        qed
      qed
    qed
  qed
next
  case (7 env node flow c w)
  then show ?case by (simp add: executeTargets.psimps)
next
  case (8 env node targetEdge rest flow c w)
  let ?r1 = "case find (\<lambda>n. node_id n = target targetEdge) (nodes flow) of
               None \<Rightarrow>
                 (Return (), pushError (targetNotFoundMsg (node_id node) (target targetEdge)) c, w)
             | Some targetNode \<Rightarrow>
                 if truthy (ntype targetNode)
                 then executeNode env (target targetEdge) flow c w
                 else (Return (),
                       pushError (targetNotFoundMsg (node_id node) (target targetEdge)) c, w)"
  have e1: "extends c (ctxOf ?r1)"
    using 8(2) by (auto split: option.split)
  have "extends (ctxOf ?r1) (ctxOf (executeTargets env node rest flow (ctxOf ?r1) (worldOf ?r1)))"
    by (rule 8(3)[OF refl])
  with e1 have "extends c (ctxOf (executeTargets env node rest flow (ctxOf ?r1) (worldOf ?r1)))"
    by (rule extends_trans)
  with 8(1) show ?case by (simp add: executeTargets.psimps Let_def)
next
  case (9 env node flow c w)
  show ?case
  proof (cases "case ndata node of None \<Rightarrow> None
                | Some d \<Rightarrow> if truthy (atype d) then Some d else None")
    case None
    have "extends (pushError (invalidActionDataMsg (node_id node)) c)
            (ctxOf (executeNodes env (getNextNodes (node_id node) flow) flow
                     (pushError (invalidActionDataMsg (node_id node)) c) w))"
      by (rule 9(2)[OF None])
    then have "extends c
            (ctxOf (executeNodes env (getNextNodes (node_id node) flow) flow
                     (pushError (invalidActionDataMsg (node_id node)) c) w))"
      by (rule extends_trans[OF extends_pushError])
    with 9(1) None show ?thesis by (simp add: executeAction.psimps)
  next
    case (Some ad)
    let ?r = "if atype ad = Some ACTION_TYPES_LOG
                then (let a = executeLogAction ad (node_id node) w in (fst a, c, snd a))
              else if atype ad = Some ACTION_TYPES_HTTP_REQUEST
                then (let a = executeHttpRequestAction env ad (node_id node) c w
                      in (fst a, c, snd a))
              else if atype ad = Some ACTION_TYPES_SEND_EMAIL
                then (let a = executeEmailAction ad (node_id node) w in (fst a, c, snd a))
              else if atype ad = Some ACTION_TYPES_CALL_FLOW
                then (let a = executeCallFlowAction env ad (node_id node) c w
                      in (fst a, c, snd a))
              else (Return (),
                    pushError (unknownActionTypeMsg (node_id node) (atype ad)) c, w)"
    let ?c2 = "case outcome ?r of
                 Return u \<Rightarrow> ctxOf ?r
               | Throw e \<Rightarrow> pushError (unexpectedActionErrorMsg (node_id node) e) (ctxOf ?r)"
    have "extends c (ctxOf ?r)" by (simp add: Let_def)
    then have e2: "extends c ?c2"
      by (cases "outcome ?r") (simp_all add: extends_pushError')
    have "extends ?c2 (ctxOf (executeNodes env (getNextNodes (node_id node) flow) flow ?c2 (worldOf ?r)))"
      by (rule 9(4)[OF Some refl refl])
    with e2 have "extends c (ctxOf (executeNodes env (getNextNodes (node_id node) flow) flow ?c2 (worldOf ?r)))"
      by (rule extends_trans)
    with 9(1) Some show ?thesis by (simp add: executeAction.psimps Let_def)
  qed
next
  case (10 env actionData nodeId c w)
  show ?case by simp
qed

lemmas engine_termination =
  "executeFlow_executeNode_executeNodes_executeTrigger_executeCondition_executeTargets_executeAction_executeCallFlowAction.termination"

lemma unvisited_mono:
  "extends c c' \<Longrightarrow> unvisited flow c' \<le> unvisited flow c"
  unfolding unvisited_def extends_def
  by (auto intro!: card_mono dest: set_mono_prefix)

lemma unvisited_pushError [simp]: "unvisited flow (pushError m c) = unvisited flow c"
  by (simp add: unvisited_def pushError_def)

lemma depth_pushError [simp]: "depth (pushError m c) = depth c"
  by (simp add: pushError_def)

lemma unvisited_mark:
  assumes "nodeId \<notin> set (executedNodes c)" "find (\<lambda>n. node_id n = nodeId) (nodes flow) = Some node"
  shows "unvisited flow (c\<lparr>executedNodes := setAdd nodeId (executedNodes c)\<rparr>) < unvisited flow c"
proof -
  let ?A = "node_id ` set (nodes flow)"
  from assms(2) have mem: "nodeId \<in> ?A"
    by (auto dest: find_Some_D)
  have "?A - set (executedNodes c @ [nodeId]) \<subset> ?A - set (executedNodes c)"
    using mem assms(1) by auto
  then have "card (?A - set (executedNodes c @ [nodeId])) < card (?A - set (executedNodes c))"
    by (intro psubset_card_mono) auto
  with assms(1) show ?thesis
    by (simp add: unvisited_def setAdd_def)
qed

lemma extends_depth: "extends c c' \<Longrightarrow> depth c' = depth c"
  by (simp add: extends_def)

lemma extends_lex:
  "extends c c' \<Longrightarrow>
     stepRank (depth c') < stepRank (depth c) \<or>
     stepRank (depth c') = stepRank (depth c) \<and>
     (unvisited flow c' < unvisited flow c \<or> unvisited flow c' = unvisited flow c)"
  using unvisited_mono[of c c' flow] by (auto simp: extends_depth)

lemma stepRank_less_flowRank: "\<not> MAX_FLOW_DEPTH \<le> d \<Longrightarrow> stepRank d < flowRank d"
  by (simp add: stepRank_def flowRank_def)

lemma flowRank_less_stepRank: "flowRank (Suc d) < stepRank d"
  unfolding stepRank_def flowRank_def MAX_FLOW_DEPTH_def by (cases "d < 4") auto

lemma length_getNextNodes: "length (getNextNodes n flow) \<le> length (edges flow)"
  unfolding getNextNodes_def
  by (metis (no_types, lifting) le_trans length_filter_le length_map)

lemma engine_total: "\<forall>x. engine_dom x"
proof (rule engine_termination[where R = "inv_image (less_than <*lex*> less_than <*lex*> less_than) engineMeasure"], goal_cases)
  case 1
  show ?case by (intro wf_inv_image wf_lex_prod wf_less_than)
next
  case (2 env flow webhookEvent parentContext w x xa x2 xaa)
  then show ?case by (simp add: engineMeasure_def stepRank_less_flowRank)
next
  case (3 env nodeId flow c w x2 x)
  then show ?case by (simp add: engineMeasure_def unvisited_mark)
next
  case (4 env nodeId flow c w x2 x)
  then show ?case by (simp add: engineMeasure_def unvisited_mark)
next
  case (5 env nodeId flow c w x2 x)
  then show ?case by (simp add: engineMeasure_def unvisited_mark)
next
  case (6 env nodeId flow c w node c1 r e c2)
  have trig: "ntype node = Some NODE_TYPES_TRIGGER"
    using 6(4,5,7,8) by (auto split: if_splits)
  then have r: "r = executeTrigger env node flow c1 w"
    using 6(4) by simp
  have "engine_dom (Inl (Inr (Inr (env, node, flow, c1, w))))"
    using 6 trig by simp
  then have ext: "extends c1 (ctxOf r)"
    unfolding r by (rule engine_extends_dom(4))
  have "unvisited flow c1 < unvisited flow c"
    unfolding 6(3) using 6(1,2) by (rule unvisited_mark)
  moreover have "unvisited flow (ctxOf r) \<le> unvisited flow c1"
    using ext by (rule unvisited_mono)
  moreover have "depth (ctxOf r) = depth c"
    using extends_depth[OF ext] by (simp add: 6(3))
  ultimately show ?case
    unfolding 6(6) by (simp add: engineMeasure_def)
next
  case 7
  then show ?case
    using length_getNextNodes
    by (simp add: engineMeasure_def le_imp_less_Suc initContext_def flowRank_less_stepRank)
next
  case (8 env nextNodeId rest flow c w r u)
  have "extends c (ctxOf (executeNode env nextNodeId flow c w))"
    using 8 by (intro engine_extends_dom(2)) simp
  from extends_lex[OF this, of flow] 8 show ?case
    by (simp add: engineMeasure_def)
next
  case 9
  then show ?case
    using length_getNextNodes
    by (simp add: engineMeasure_def le_imp_less_Suc initContext_def flowRank_less_stepRank)
next
  case 10
  then show ?case
    using length_getNextNodes
    by (simp add: engineMeasure_def le_imp_less_Suc initContext_def flowRank_less_stepRank)
next
  case 11
  then show ?case
    using length_getNextNodes
    by (simp add: engineMeasure_def le_imp_less_Suc initContext_def flowRank_less_stepRank)
next
  case (12 env node targetEdge rest flow c w r1)
  have "extends c (ctxOf r1)"
    unfolding 12(1) using 12(2) by (auto split: option.split intro: engine_extends_dom(2))
  from extends_lex[OF this, of flow] show ?case
    by (simp add: engineMeasure_def)
next
  case 13
  then show ?case
    using length_getNextNodes
    by (simp add: engineMeasure_def le_imp_less_Suc initContext_def flowRank_less_stepRank)
next
  case 14
  then show ?case
    using length_getNextNodes
    by (auto simp: engineMeasure_def le_imp_less_Suc initContext_def flowRank_less_stepRank Let_def split: res.split)
next
  case 15
  then show ?case
    using length_getNextNodes
    by (auto simp: engineMeasure_def le_imp_less_Suc initContext_def flowRank_less_stepRank Let_def split: res.split)
next
  case 16
  then show ?case
    by (simp add: engineMeasure_def initContext_def flowRank_less_stepRank)
qed

termination executeFlow
  using engine_total by blast

declare executeFlow.simps [simp del] executeNode.simps [simp del] executeNodes.simps [simp del]
  executeTrigger.simps [simp del] executeCondition.simps [simp del]
  executeTargets.simps [simp del] executeAction.simps [simp del]
  executeCallFlowAction.simps [simp del]

lemma engine_dom_all: "engine_dom x"
  using engine_total by blast

lemmas executeNode_extends = engine_extends_dom(2)[OF engine_dom_all]
lemmas executeNodes_extends = engine_extends_dom(3)[OF engine_dom_all]
lemmas executeTrigger_extends = engine_extends_dom(4)[OF engine_dom_all]
lemmas executeCondition_extends = engine_extends_dom(5)[OF engine_dom_all]
lemmas executeTargets_extends = engine_extends_dom(6)[OF engine_dom_all]
lemmas executeAction_extends = engine_extends_dom(7)[OF engine_dom_all]

section \<open>Properties of the engine\<close>

lemmas engine_simps = executeFlow.simps executeNode.simps executeNodes.simps
  executeTrigger.simps executeCondition.simps executeTargets.simps executeAction.simps
  executeCallFlowAction.simps

lemmas runtime_defs = sampleRuntime_def sampleInherited_def objectMember_def arrayMember_def
  objectPrototypeNames_def arrayPrototypeNames_def sampleNumberToString_def
  sampleStringToNumber_def isDigit_def digitValue_def readNat_def digitChar_def

lemmas sample_defs = sampleEnv_def runtime_defs noData_def noConfig_def
  mkTrigger_def mkCondition_def mkAction_def mkEnd_def mkEdge_def leadFlow_def leadEvent_def
  emptyRepo_def

lemmas engine_defs = initContext_def formatResult_def pushError_def setAdd_def validateFlow_def
  getNextNodes_def evaluateCondition_def getNestedValue_def fieldBlank_def trim_def
  trimStart.simps trimEnd.simps whiteSpace_def startsWith_def endsWith_def
  getProp_def ownProp_def isObjectType_def truthy_def firstRejection_def callFlowCatch_def
  executeLogAction_def executeHttpRequestAction_def executeEmailAction_def constants_defs
  outcome_def ctxOf_def worldOf_def spread_def bindRes_def js_Number_def

lemmas sample_defs5 = chainFlow_def pingPongRepo_def chainRepo_def

lemmas sample_defs7 = bareFlow_def bareTrigger_def untypedFlow_def untypedNode_def fanFlow_def

lemmas engine_induct = executeFlow_executeNode_executeNodes_executeTrigger_executeCondition_executeTargets_executeAction_executeCallFlowAction.induct

subsection \<open>No exception leaves the dispatch of a node\<close>

text \<open>
  \<open>executeCondition\<close> throws when the data of the node is absent or when the condition
  cannot be evaluated or printed, and \<open>executeCallFlowAction\<close> and the other actions
  throw as well; the \<open>catch\<close> of \<open>executeNode\<close> and the \<open>catch\<close> of \<open>executeAction\<close> turn
  every one of these exceptions into an entry of \<open>errors\<close>. So no exception leaves
  \<open>executeNode\<close>, and none reaches the \<open>catch\<close> of \<open>executeFlow\<close>.
\<close>

lemma firstRejection_Return [simp]: "firstRejection (Return u) r = r"
  by (simp add: firstRejection_def)

lemma engine_never_throws:
  fixes env :: "'w env"
  shows "(\<exists>r w'. executeFlow env flow ev parent w = (r, w'))"
  and "outcome (executeNode env nodeId flow c w) = Return ()"
  and "outcome (executeNodes env ids flow c w) = Return ()"
  and "outcome (executeTrigger env node flow c w) = Return ()"
  and "(\<exists>r c' w'. executeCondition env node flow c w = (r, c', w'))"
  and "outcome (executeTargets env node es flow c w) = Return ()"
  and "outcome (executeAction env node flow c w) = Return ()"
  and "(\<exists>r w'. executeCallFlowAction env actionData nodeId c w = (r, w'))"
proof (induct env flow ev parent w and env nodeId flow c w and env ids flow c w
    and env node flow c w and env node flow c w and env node es flow c w
    and env node flow c w and env actionData nodeId c w rule: engine_induct)
  case (1 env flow webhookEvent parentContext w)
  show ?case by (cases "executeFlow env flow webhookEvent parentContext w") simp
next
  case (2 env nodeId flow c w)
  show ?case
  proof (cases "nodeId \<in> set (executedNodes c)")
    case True
    then show ?thesis by (simp add: executeNode.simps)
  next
    case nv: False
    show ?thesis
    proof (cases "find (\<lambda>n. node_id n = nodeId) (nodes flow)")
      case None
      with nv show ?thesis by (simp add: executeNode.simps)
    next
      case (Some node)
      let ?c1 = "c\<lparr>executedNodes := setAdd nodeId (executedNodes c)\<rparr>"
      let ?r = "if ntype node = Some NODE_TYPES_TRIGGER then executeTrigger env node flow ?c1 w
                else if ntype node = Some NODE_TYPES_CONDITION
                  then executeCondition env node flow ?c1 w
                else if ntype node = Some NODE_TYPES_ACTION
                  then executeAction env node flow ?c1 w
                else if ntype node = Some NODE_TYPES_END then (Return (), ?c1, w)
                else (Return (), pushError (unknownNodeTypeMsg (ntype node) nodeId) ?c1, w)"
      have nc: "ntype node \<noteq> Some NODE_TYPES_CONDITION \<Longrightarrow> outcome ?r = Return ()"
        using 2(1)[OF nv Some refl] 2(3)[OF nv Some refl] by (auto simp: constants_defs)
      show ?thesis
      proof (cases "outcome ?r")
        case (Return u)
        with nv Some show ?thesis by (simp add: executeNode.simps Let_def)
      next
        case (Throw e)
        with nc have "ntype node = Some NODE_TYPES_CONDITION" by auto
        with nv Some Throw show ?thesis by (simp add: executeNode.simps Let_def)
      qed
    qed
  qed
next
  case (3 env flow c w)
  show ?case by (simp add: executeNodes.simps)
next
  case (4 env nextNodeId rest flow c w)
  have "outcome (executeNode env nextNodeId flow c w) = Return ()" by (rule 4(1))
  with 4(2)[OF refl this] show ?case by (simp add: executeNodes.simps Let_def)
next
  case (5 env node flow c w)
  then show ?case by (simp add: executeTrigger.simps Let_def)
next
  case (6 env node flow c w)
  show ?case by (cases "executeCondition env node flow c w") simp
next
  case (7 env node flow c w)
  show ?case by (simp add: executeTargets.simps)
next
  case (8 env node targetEdge rest flow c w)
  let ?r1 = "case find (\<lambda>n. node_id n = target targetEdge) (nodes flow) of
               None \<Rightarrow>
                 (Return (), pushError (targetNotFoundMsg (node_id node) (target targetEdge)) c, w)
             | Some targetNode \<Rightarrow>
                 if truthy (ntype targetNode)
                 then executeNode env (target targetEdge) flow c w
                 else (Return (),
                       pushError (targetNotFoundMsg (node_id node) (target targetEdge)) c, w)"
  have "outcome ?r1 = Return ()"
    using 8(1) by (auto split: option.split)
  with 8(2)[OF refl] show ?case by (simp add: executeTargets.simps Let_def)
next
  case (9 env node flow c w)
  show ?case
  proof (cases "case ndata node of None \<Rightarrow> None
                | Some d \<Rightarrow> if truthy (atype d) then Some d else None")
    case None
    with 9(1)[OF None] show ?thesis by (simp add: executeAction.simps)
  next
    case (Some ad)
    from 9(3)[OF Some refl refl] Some show ?thesis by (simp add: executeAction.simps Let_def)
  qed
next
  case (10 env actionData nodeId c w)
  show ?case by (cases "executeCallFlowAction env actionData nodeId c w") simp
qed

lemma extends_prefix: "extends c c' \<Longrightarrow> prefix (executedNodes c) (executedNodes c')"
  by (simp add: extends_def)

lemma extends_distinct: "extends c c' \<Longrightarrow> distinct (executedNodes c) \<Longrightarrow> distinct (executedNodes c')"
  by (simp add: extends_def)

lemma extends_mem: "extends c c' \<Longrightarrow> x \<in> set (executedNodes c) \<Longrightarrow> x \<in> set (executedNodes c')"
  by (auto simp: extends_def dest: set_mono_prefix)

lemma extends_error_mem:
  "extends c c' \<Longrightarrow> m \<in> set (errors c) \<Longrightarrow> m \<in> set (errors c')"
  by (auto simp: extends_def dest: set_mono_prefix)

lemma executeNode_visited:
  "nodeId \<in> set (executedNodes c) \<Longrightarrow> executeNode env nodeId flow c w = (Return (), c, w)"
  by (simp add: executeNode.simps)

text \<open>The body of a node runs on the context in which the node is already marked.\<close>

lemma executeNode_extends_marked:
  assumes nv: "nodeId \<notin> set (executedNodes c)"
    and fnd: "find (\<lambda>n. node_id n = nodeId) (nodes flow) = Some node"
  shows "extends (c\<lparr>executedNodes := executedNodes c @ [nodeId]\<rparr>)
           (ctxOf (executeNode env nodeId flow c w))"
proof -
  let ?c1 = "c\<lparr>executedNodes := setAdd nodeId (executedNodes c)\<rparr>"
  let ?r = "if ntype node = Some NODE_TYPES_TRIGGER then executeTrigger env node flow ?c1 w
            else if ntype node = Some NODE_TYPES_CONDITION
              then executeCondition env node flow ?c1 w
            else if ntype node = Some NODE_TYPES_ACTION
              then executeAction env node flow ?c1 w
            else if ntype node = Some NODE_TYPES_END then (Return (), ?c1, w)
            else (Return (), pushError (unknownNodeTypeMsg (ntype node) nodeId) ?c1, w)"
  have c1: "?c1 = c\<lparr>executedNodes := executedNodes c @ [nodeId]\<rparr>"
    using nv by (simp add: setAdd_def)
  have nc: "ntype node \<noteq> Some NODE_TYPES_CONDITION \<Longrightarrow> outcome ?r = Return ()"
    by (simp add: engine_never_throws)
  have ext: "extends ?c1 (ctxOf ?r)"
    by (simp add: executeTrigger_extends executeCondition_extends executeAction_extends)
  show ?thesis
  proof (cases "outcome ?r")
    case (Return u)
    then have "executeNode env nodeId flow c w = ?r"
      using nv fnd by (simp add: executeNode.simps Let_def)
    with ext c1 show ?thesis by simp
  next
    case (Throw e)
    with nc have cond: "ntype node = Some NODE_TYPES_CONDITION" by auto
    have "ctxOf (executeNode env nodeId flow c w) = pushError (nodeErrorMsg nodeId e) (ctxOf ?r)"
      using nv fnd Throw cond by (simp add: executeNode.simps Let_def)
    with ext c1 show ?thesis by (simp add: extends_pushError')
  qed
qed

lemma executeNode_visits:
  assumes "find (\<lambda>n. node_id n = nodeId) (nodes flow) = Some node"
  shows "nodeId \<in> set (executedNodes (ctxOf (executeNode env nodeId flow c w)))"
proof (cases "nodeId \<in> set (executedNodes c)")
  case True
  then show ?thesis by (simp add: executeNode_visited)
next
  case False
  from executeNode_extends_marked[OF False assms, of env w]
  show ?thesis by (rule extends_mem) simp
qed


text \<open>
  The branches of a Condition node: a chosen edge whose target is a node of the flow
  with a type is followed, and its target is executed when the branches are over; a
  chosen edge whose target is not a node of the flow, or is a node without a type, is
  not followed: the error that the target was not found is recorded instead.
\<close>

lemma executeTargets_step:
  "ctxOf (executeTargets env node (e # es) flow c w) =
     ctxOf (executeTargets env node es flow
        (ctxOf (case find (\<lambda>n. node_id n = target e) (nodes flow) of
               None \<Rightarrow> (Return (), pushError (targetNotFoundMsg (node_id node) (target e)) c, w)
             | Some targetNode \<Rightarrow>
                 if truthy (ntype targetNode)
                 then executeNode env (target e) flow c w
                 else (Return (), pushError (targetNotFoundMsg (node_id node) (target e)) c, w)))
        (worldOf (case find (\<lambda>n. node_id n = target e) (nodes flow) of
               None \<Rightarrow> (Return (), pushError (targetNotFoundMsg (node_id node) (target e)) c, w)
             | Some targetNode \<Rightarrow>
                 if truthy (ntype targetNode)
                 then executeNode env (target e) flow c w
                 else (Return (), pushError (targetNotFoundMsg (node_id node) (target e)) c, w))))"
  by (simp add: executeTargets.simps Let_def)

lemma executeTargets_visits:
  assumes "edge \<in> set es"
    and "find (\<lambda>n. node_id n = target edge) (nodes flow) = Some t" and "truthy (ntype t)"
  shows "target edge \<in> set (executedNodes (ctxOf (executeTargets env node es flow c w)))"
  using assms(1)
proof (induction es arbitrary: c w)
  case Nil
  then show ?case by simp
next
  case (Cons e es)
  show ?case
  proof (cases "edge = e")
    case True
    have "target edge \<in> set (executedNodes (ctxOf (executeNode env (target edge) flow c w)))"
      by (rule executeNode_visits[OF assms(2)])
    then show ?thesis
      unfolding executeTargets_step using True assms(2,3)
      by (auto intro: extends_mem[OF executeTargets_extends])
  next
    case False
    with Cons.prems have "edge \<in> set es" by simp
    then show ?thesis unfolding executeTargets_step by (rule Cons.IH)
  qed
qed

lemma executeTargets_missing_target:
  assumes "edge \<in> set es"
    and "find (\<lambda>n. node_id n = target edge) (nodes flow) = None
         \<or> (\<exists>t. find (\<lambda>n. node_id n = target edge) (nodes flow) = Some t \<and> \<not> truthy (ntype t))"
  shows "targetNotFoundMsg (node_id node) (target edge)
           \<in> set (errors (ctxOf (executeTargets env node es flow c w)))"
  using assms(1)
proof (induction es arbitrary: c w)
  case Nil
  then show ?case by simp
next
  case (Cons e es)
  show ?case
  proof (cases "edge = e")
    case True
    have "targetNotFoundMsg (node_id node) (target edge)
            \<in> set (errors (pushError (targetNotFoundMsg (node_id node) (target edge)) c))"
      by (simp add: pushError_def)
    then show ?thesis
      unfolding executeTargets_step using True assms(2)
      by (auto intro: extends_error_mem[OF executeTargets_extends])
  next
    case False
    with Cons.prems have "edge \<in> set es" by simp
    then show ?thesis unfolding executeTargets_step by (rule Cons.IH)
  qed
qed

subsection \<open>The depth guard\<close>

text \<open>
  C2. When \<open>executeFlow\<close> is entered from a parent context whose depth plus one is at
  least \<open>MAX_FLOW_DEPTH\<close> = 5, it returns at once: no node is executed, and the only
  error is the text \<open>Limite de profundidade de chamadas atingido (5). Stack: \<close> followed
  by the ids of the call stack (the parent's stack, then this flow) joined by arrows.
  The world is untouched. Without a parent the depth is 0 and the guard does not apply.
\<close>

theorem executeFlow_depth_limit:
  assumes "MAX_FLOW_DEPTH \<le> depth p + 1"
  shows "executeFlow env flow ev (Some p) w =
           (Return \<lparr>success = False, resultNodes = [],
                    resultErrors =
                      [''Limite de profundidade de chamadas atingido (5). Stack: ''
                         @ join ('' '' @ [CHR 0xE2, CHR 0x86, CHR 0x92] @ '' '')
                              (flowCallStack p @ [flow_id flow])]\<rparr>, w)"
  using assms
  by (simp add: executeFlow.simps initContext_def formatResult_def pushError_def
                depthLimitMsg_def stackText_def arrow_def MAX_FLOW_DEPTH_def
                showNat.simps digitChar_def)

theorem executeFlow_depth_limit_witness:
  "MAX_FLOW_DEPTH \<le> depth (sampleParent [''f1'', ''f2'', ''f3'', ''f4'', ''f5''] 4) + 1
   \<and> executeFlow (sampleEnv emptyRepo) leadFlow (leadEvent ''whatsapp'')
       (Some (sampleParent [''f1'', ''f2'', ''f3'', ''f4'', ''f5''] 4)) [] =
     (Return \<lparr>success = False, resultNodes = [],
              resultErrors =
                [''Limite de profundidade de chamadas atingido (5). Stack: f1 ''
                   @ [CHR 0xE2, CHR 0x86, CHR 0x92] @ '' f2 ''
                   @ [CHR 0xE2, CHR 0x86, CHR 0x92] @ '' f3 ''
                   @ [CHR 0xE2, CHR 0x86, CHR 0x92] @ '' f4 ''
                   @ [CHR 0xE2, CHR 0x86, CHR 0x92] @ '' f5 ''
                   @ [CHR 0xE2, CHR 0x86, CHR 0x92] @ '' lead'']\<rparr>, [])"
proof -
  have h: "MAX_FLOW_DEPTH \<le> depth (sampleParent [''f1'', ''f2'', ''f3'', ''f4'', ''f5''] 4) + 1"
    by (simp add: sampleParent_def MAX_FLOW_DEPTH_def)
  show ?thesis
    using h executeFlow_depth_limit[OF h, of "sampleEnv emptyRepo" leadFlow "leadEvent ''whatsapp''" "[]"]
    by (simp add: sampleParent_def leadFlow_def)
qed

text \<open>
  A run through the guard: \<open>f1\<close> calls \<open>f2\<close>, and so on to \<open>f6\<close>. The flows \<open>f1\<close> to
  \<open>f5\<close> run at the depths 0 to 4; \<open>f6\<close> is entered at depth 5 and stopped: its result,
  written to the execution log first, has the depth error and no executed node.
\<close>

lemma depth_run_example:
  "executeFlow (sampleEnv chainRepo) (chainFlow ''f1'' ''f2'') (leadEvent ''whatsapp'') None [] =
     (Return \<lparr>success = True, resultNodes = [''t'', ''a'', ''e''], resultErrors = []\<rparr>,
      [(''log-f6'', \<lparr>success = False, resultNodes = [],
                      resultErrors = [depthLimitMsg [''f1'', ''f2'', ''f3'', ''f4'', ''f5'', ''f6'']]\<rparr>),
       (''log-f5'', \<lparr>success = True, resultNodes = [''t'', ''a'', ''e''], resultErrors = []\<rparr>),
       (''log-f4'', \<lparr>success = True, resultNodes = [''t'', ''a'', ''e''], resultErrors = []\<rparr>),
       (''log-f3'', \<lparr>success = True, resultNodes = [''t'', ''a'', ''e''], resultErrors = []\<rparr>),
       (''log-f2'', \<lparr>success = True, resultNodes = [''t'', ''a'', ''e''], resultErrors = []\<rparr>)])"
  by (simp add: engine_simps sample_defs sample_defs5 engine_defs isValidationError_def Let_def cong: let_weak_cong)

subsection \<open>The loop guard\<close>

text \<open>
  C3. When the depth is still under the limit and the id of the flow already occurs in
  the call stack of the parent context, so that it occurs more than once in the stack
  with this flow added, \<open>executeFlow\<close> returns at once: no node of the flow is executed,
  and the only error is the text \<open>Loop detectado: Flow\<close>, the id of the flow, the
  words that it was already called in this chain (\<open>foi chamado nesta cadeia\<close>),
  \<open>Stack: \<close> and the ids of the call stack joined by arrows.
  The world is untouched. Without a parent the stack is the flow alone and the guard
  does not apply.
\<close>

theorem executeFlow_loop_detected:
  assumes "depth p + 1 < MAX_FLOW_DEPTH"
    and "flow_id flow \<in> set (flowCallStack p)"
  shows "executeFlow env flow ev (Some p) w =
           (Return \<lparr>success = False, resultNodes = [],
                    resultErrors =
                      [''Loop detectado: Flow '' @ flow_id flow @ '' j'' @ [CHR 0xC3, CHR 0xA1]
                         @ '' foi chamado nesta cadeia. Stack: ''
                         @ join ('' '' @ [CHR 0xE2, CHR 0x86, CHR 0x92] @ '' '')
                              (flowCallStack p @ [flow_id flow])]\<rparr>, w)"
proof -
  from assms(2) have "filter (\<lambda>i. i = flow_id flow) (flowCallStack p) \<noteq> []"
    by (simp add: filter_empty_conv)
  then have "0 < length (filter (\<lambda>i. i = flow_id flow) (flowCallStack p))"
    by simp
  with assms(1) show ?thesis
    by (simp add: executeFlow.simps initContext_def formatResult_def pushError_def
                  loopMsg_def stackText_def arrow_def a_acute_def)
qed

theorem executeFlow_loop_detected_witness:
  "depth (sampleParent [''lead'', ''other''] 1) + 1 < MAX_FLOW_DEPTH
   \<and> flow_id leadFlow \<in> set (flowCallStack (sampleParent [''lead'', ''other''] 1))
   \<and> executeFlow (sampleEnv emptyRepo) leadFlow (leadEvent ''whatsapp'')
       (Some (sampleParent [''lead'', ''other''] 1)) [] =
     (Return \<lparr>success = False, resultNodes = [],
              resultErrors =
                [''Loop detectado: Flow lead j'' @ [CHR 0xC3, CHR 0xA1]
                   @ '' foi chamado nesta cadeia. Stack: lead ''
                   @ [CHR 0xE2, CHR 0x86, CHR 0x92] @ '' other ''
                   @ [CHR 0xE2, CHR 0x86, CHR 0x92] @ '' lead'']\<rparr>, [])"
proof -
  have h1: "depth (sampleParent [''lead'', ''other''] 1) + 1 < MAX_FLOW_DEPTH"
    by (simp add: sampleParent_def MAX_FLOW_DEPTH_def)
  have h2: "flow_id leadFlow \<in> set (flowCallStack (sampleParent [''lead'', ''other''] 1))"
    by (simp add: sampleParent_def leadFlow_def)
  show ?thesis
    using h1 h2 executeFlow_loop_detected[OF h1 h2, of "sampleEnv emptyRepo" "leadEvent ''whatsapp''" "[]"]
    by (simp add: sampleParent_def leadFlow_def)
qed

text \<open>
  A run through the guard: \<open>ping\<close> calls \<open>pong\<close>, which calls \<open>ping\<close> again. The second
  entry of \<open>ping\<close> is stopped by the loop guard; its result, written to the execution
  log, has the loop error and no executed node. Neither \<open>pong\<close> nor the first \<open>ping\<close>
  fails: the errors of a called flow are not errors of its caller.
\<close>

lemma loop_run_example:
  "executeFlow (sampleEnv pingPongRepo) (chainFlow ''ping'' ''pong'') (leadEvent ''whatsapp'') None [] =
     (Return \<lparr>success = True, resultNodes = [''t'', ''a'', ''e''], resultErrors = []\<rparr>,
      [(''log-ping'', \<lparr>success = False, resultNodes = [],
                        resultErrors = [loopMsg ''ping'' [''ping'', ''pong'', ''ping'']]\<rparr>),
       (''log-pong'', \<lparr>success = True, resultNodes = [''t'', ''a'', ''e''], resultErrors = []\<rparr>)])"
  by (simp add: engine_simps sample_defs sample_defs5 engine_defs isValidationError_def Let_def cong: let_weak_cong)

subsection \<open>The result of a run\<close>




subsection \<open>Every node runs at most once\<close>

text \<open>
  C4. Inside one execution context a node is executed at most once, whatever the edges:
  \<^item> \<open>executeNode\<close> on a node id that is already in \<open>executedNodes\<close> returns at once and
    changes neither the context nor the world;
  \<^item> a node that exists and is not yet executed is marked before its body runs: in the
    context after \<open>executeNode\<close> its id comes right after the ids executed before the
    call, ahead of every id its body added;
  \<^item> \<open>executedNodes\<close> stays free of duplicates, and the list of executed nodes that
    \<open>executeFlow\<close> returns holds every node id at most once.
\<close>

theorem executeNode_at_most_once:
  "(nodeId \<in> set (executedNodes c) \<longrightarrow> executeNode env nodeId flow c w = (Return (), c, w))
   \<and> (nodeId \<notin> set (executedNodes c) \<and> find (\<lambda>n. node_id n = nodeId) (nodes flow) = Some node
        \<longrightarrow> (\<exists>ys. executedNodes (ctxOf (executeNode env nodeId flow c w))
                     = executedNodes c @ nodeId # ys))
   \<and> (distinct (executedNodes c)
        \<longrightarrow> distinct (executedNodes (ctxOf (executeNode env nodeId flow c w))))
   \<and> (\<forall>r w'. executeFlow env flow ev parent w = (Return r, w') \<longrightarrow> distinct (resultNodes r))"
proof (intro conjI impI allI)
  assume "nodeId \<in> set (executedNodes c)"
  then show "executeNode env nodeId flow c w = (Return (), c, w)"
    by (rule executeNode_visited)
next
  assume "nodeId \<notin> set (executedNodes c) \<and> find (\<lambda>n. node_id n = nodeId) (nodes flow) = Some node"
  then have "prefix (executedNodes c @ [nodeId])
               (executedNodes (ctxOf (executeNode env nodeId flow c w)))"
    using extends_prefix[OF executeNode_extends_marked, of nodeId c flow node env w] by simp
  then show "\<exists>ys. executedNodes (ctxOf (executeNode env nodeId flow c w))
                     = executedNodes c @ nodeId # ys"
    by (auto simp: prefix_def)
next
  assume "distinct (executedNodes c)"
  then show "distinct (executedNodes (ctxOf (executeNode env nodeId flow c w)))"
    by (rule extends_distinct[OF executeNode_extends])
next
  fix r w'
  assume run: "executeFlow env flow ev parent w = (Return r, w')"
  let ?c0 = "initContext flow ev parent"
  have d0: "executedNodes ?c0 = []"
    by (simp add: initContext_def split: option.split)
  have "\<And>n. distinct (executedNodes (ctxOf (executeNode env n flow ?c0 w)))"
    by (rule extends_distinct[OF executeNode_extends]) (simp add: d0)
  then show "distinct (resultNodes r)"
    using run d0
    by (auto simp: executeFlow.simps formatResult_def pushError_def Let_def
             split: option.splits res.splits if_splits)
qed

lemmas sample_defs2 = loopFlow_def afterTrigger_def

theorem executeNode_at_most_once_witness:
  "''t'' \<in> set (executedNodes afterTrigger)
   \<and> executeNode (sampleEnv emptyRepo) ''t'' loopFlow afterTrigger [] = (Return (), afterTrigger, [])
   \<and> ''l'' \<notin> set (executedNodes afterTrigger)
   \<and> find (\<lambda>n. node_id n = ''l'') (nodes loopFlow) = Some (mkAction ''l'' ''LOG'' noConfig)
   \<and> (\<exists>ys. executedNodes (ctxOf (executeNode (sampleEnv emptyRepo) ''l'' loopFlow afterTrigger []))
              = executedNodes afterTrigger @ ''l'' # ys)
   \<and> distinct (executedNodes afterTrigger)
   \<and> distinct (executedNodes (ctxOf (executeNode (sampleEnv emptyRepo) ''l'' loopFlow afterTrigger [])))
   \<and> executeFlow (sampleEnv emptyRepo) loopFlow (leadEvent ''whatsapp'') None [] =
        (Return \<lparr>success = True, resultNodes = [''t'', ''l'', ''e''], resultErrors = []\<rparr>, [])
   \<and> distinct (resultNodes \<lparr>success = True, resultNodes = [''t'', ''l'', ''e''], resultErrors = []\<rparr>)"
proof -
  have h1: "''t'' \<in> set (executedNodes afterTrigger)"
    by (simp add: afterTrigger_def)
  have h2: "''l'' \<notin> set (executedNodes afterTrigger)
            \<and> find (\<lambda>n. node_id n = ''l'') (nodes loopFlow) = Some (mkAction ''l'' ''LOG'' noConfig)"
    by (simp add: afterTrigger_def loopFlow_def mkTrigger_def mkAction_def mkEnd_def)
  have h3: "distinct (executedNodes afterTrigger)"
    by (simp add: afterTrigger_def)
  have run: "executeFlow (sampleEnv emptyRepo) loopFlow (leadEvent ''whatsapp'') None [] =
        (Return \<lparr>success = True, resultNodes = [''t'', ''l'', ''e''], resultErrors = []\<rparr>, [])"
    by (simp add: engine_simps sample_defs sample_defs2 engine_defs Let_def cong: let_weak_cong)
  note t1 = executeNode_at_most_once[of "''t''" afterTrigger "sampleEnv emptyRepo" loopFlow "[]"
      "mkAction ''l'' ''LOG'' noConfig" "leadEvent ''whatsapp''" None]
  note t2 = executeNode_at_most_once[of "''l''" afterTrigger "sampleEnv emptyRepo" loopFlow "[]"
      "mkAction ''l'' ''LOG'' noConfig" "leadEvent ''whatsapp''" None]
  from t1 h1 have a: "executeNode (sampleEnv emptyRepo) ''t'' loopFlow afterTrigger [] = (Return (), afterTrigger, [])"
    by blast
  from t2 h2 have b: "\<exists>ys. executedNodes (ctxOf (executeNode (sampleEnv emptyRepo) ''l'' loopFlow afterTrigger []))
              = executedNodes afterTrigger @ ''l'' # ys"
    by blast
  from t2 h3 have c: "distinct (executedNodes (ctxOf (executeNode (sampleEnv emptyRepo) ''l'' loopFlow afterTrigger [])))"
    by blast
  from t2 run have d: "distinct (resultNodes \<lparr>success = True, resultNodes = [''t'', ''l'', ''e''], resultErrors = []\<rparr>)"
    by blast
  from h1 h2 h3 run a b c d show ?thesis by blast
qed

subsection \<open>The branch of a Condition node\<close>

lemmas sample_defs3 = leadCondition_def atCondition_def otherEvent_def sampleParent_def atFan_def

text \<open>
  C5, as stated, fails. In \<open>untypedFlow\<close> the condition of the node \<open>c\<close> is true for the
  payload and its only \<open>yes\<close> edge leads to \<open>x\<close>, a node of the flow that is stored
  without a type. The edge is chosen, but its target is not visited: it is not among
  the executed nodes, the error that the target was not found is recorded instead,
  and the run is not a success.
\<close>

theorem condition_target_not_visited_counterexample:
  "evaluateCondition (sampleEnv emptyRepo)
       (noData\<lparr>field := Some ''data.lead.source'', operator := Some ''EQUALS'',
               cvalue := JStr ''whatsapp''\<rparr>) (wdata (leadEvent ''whatsapp'')) = Return True
   \<and> filter (\<lambda>edge. sourceHandle edge = Some CONDITION_HANDLES_YES)
        (filter (\<lambda>edge. source edge = ''c'') (edges untypedFlow)) = [mkEdge ''c'' ''x'' (Some ''yes'')]
   \<and> target (mkEdge ''c'' ''x'' (Some ''yes'')) = ''x''
   \<and> find (\<lambda>n. node_id n = ''x'') (nodes untypedFlow)
        = Some \<lparr>node_id = ''x'', ntype = None, ndata = Some noData\<rparr>
   \<and> executeFlow (sampleEnv emptyRepo) untypedFlow (leadEvent ''whatsapp'') None [] =
        (Return \<lparr>success = False, resultNodes = [''t'', ''c''],
                 resultErrors = [targetNotFoundMsg ''c'' ''x'']\<rparr>, [])
   \<and> ''x'' \<notin> set [''t'', ''c'']"
proof -
  have "executeFlow (sampleEnv emptyRepo) untypedFlow (leadEvent ''whatsapp'') None [] =
        (Return \<lparr>success = False, resultNodes = [''t'', ''c''],
                 resultErrors = [targetNotFoundMsg ''c'' ''x'']\<rparr>, [])"
    by (simp add: engine_simps sample_defs sample_defs7 engine_defs Let_def cong: let_weak_cong)
  moreover have "evaluateCondition (sampleEnv emptyRepo)
       (noData\<lparr>field := Some ''data.lead.source'', operator := Some ''EQUALS'',
               cvalue := JStr ''whatsapp''\<rparr>) (wdata (leadEvent ''whatsapp'')) = Return True"
    by (simp add: sample_defs engine_defs Let_def cong: let_weak_cong)
  ultimately show ?thesis
    by (simp add: sample_defs sample_defs7 constants_defs)
qed

lemma targetNotFoundMsg_text:
  "targetNotFoundMsg nid tgt =
     ''N'' @ [CHR 0xC3, CHR 0xB3] @ '' de condi'' @ [CHR 0xC3, CHR 0xA7, CHR 0xC3, CHR 0xA3]
       @ ''o '' @ nid @ '': N'' @ [CHR 0xC3, CHR 0xB3] @ '' de destino ''
       @ tgt @ '' n'' @ [CHR 0xC3, CHR 0xA3] @ ''o encontrado no flow''"
  by (simp add: targetNotFoundMsg_def No_uc_def condicao_def nao_def o_acute_def c_cedilla_def
                a_tilde_def)

text \<open>
  C5, amended. When a Condition node that has data and a configured field is
  dispatched, its condition evaluates to \<open>b\<close> and its literal can be printed, the edges
  followed are exactly the outgoing edges of the node whose \<open>sourceHandle\<close> is \<open>yes\<close> (if
  \<open>b\<close>) or \<open>no\<close> (if not): \<open>executeCondition\<close> is \<open>executeTargets\<close> on those edges, and it
  does not throw. When the dispatch returns,
  \<^item> every target of such an edge that is a node of the flow with a type is among the
    executed nodes;
  \<^item> for every such edge whose target is not a node of the flow, or is a node without a
    type, the error that the target was not found is among the errors (the edge is not
    followed);
  \<^item> when no edge carries the chosen handle, the context and the world are as they
    were: no error is recorded and nothing more is executed.
\<close>

theorem executeCondition_follows_branch:
  assumes "ndata node = Some d" and "\<not> fieldBlank (field d)"
    and "evaluateCondition env d (wdata (webhookData c)) = Return b"
    and "js_String (runtime env) (cvalue d) = Return s"
  shows
    "let chosen = filter (\<lambda>edge. sourceHandle edge =
                            Some (if b then CONDITION_HANDLES_YES else CONDITION_HANDLES_NO))
                    (filter (\<lambda>edge. source edge = node_id node) (edges flow))
     in executeCondition env node flow c w = executeTargets env node chosen flow c w
        \<and> outcome (executeCondition env node flow c w) = Return ()
        \<and> (\<forall>edge \<in> set chosen. \<forall>t.
              find (\<lambda>n. node_id n = target edge) (nodes flow) = Some t \<and> truthy (ntype t)
              \<longrightarrow> target edge \<in> set (executedNodes (ctxOf (executeCondition env node flow c w))))
        \<and> (\<forall>edge \<in> set chosen.
              find (\<lambda>n. node_id n = target edge) (nodes flow) = None
              \<or> (\<exists>t. find (\<lambda>n. node_id n = target edge) (nodes flow) = Some t
                       \<and> \<not> truthy (ntype t))
              \<longrightarrow> (''N'' @ [CHR 0xC3, CHR 0xB3] @ '' de condi'' @ [CHR 0xC3, CHR 0xA7, CHR 0xC3, CHR 0xA3]
                      @ ''o '' @ node_id node @ '': N'' @ [CHR 0xC3, CHR 0xB3] @ '' de destino ''
                      @ target edge @ '' n'' @ [CHR 0xC3, CHR 0xA3] @ ''o encontrado no flow'')
                    \<in> set (errors (ctxOf (executeCondition env node flow c w))))
        \<and> (chosen = [] \<longrightarrow> executeCondition env node flow c w = (Return (), c, w))"
proof -
  define chosen where
    "chosen = filter (\<lambda>edge. sourceHandle edge =
                        Some (if b then CONDITION_HANDLES_YES else CONDITION_HANDLES_NO))
                (filter (\<lambda>edge. source edge = node_id node) (edges flow))"
  have eq: "executeCondition env node flow c w = executeTargets env node chosen flow c w"
    using assms unfolding chosen_def
    by (simp add: executeCondition.simps executeTargets.simps Let_def)
  have out: "outcome (executeCondition env node flow c w) = Return ()"
    unfolding eq by (rule engine_never_throws)
  have vis: "\<forall>edge \<in> set chosen. \<forall>t.
              find (\<lambda>n. node_id n = target edge) (nodes flow) = Some t \<and> truthy (ntype t)
              \<longrightarrow> target edge \<in> set (executedNodes (ctxOf (executeCondition env node flow c w)))"
    unfolding eq by (auto intro: executeTargets_visits)
  have mis: "\<forall>edge \<in> set chosen.
              find (\<lambda>n. node_id n = target edge) (nodes flow) = None
              \<or> (\<exists>t. find (\<lambda>n. node_id n = target edge) (nodes flow) = Some t
                       \<and> \<not> truthy (ntype t))
              \<longrightarrow> (''N'' @ [CHR 0xC3, CHR 0xB3] @ '' de condi'' @ [CHR 0xC3, CHR 0xA7, CHR 0xC3, CHR 0xA3]
                      @ ''o '' @ node_id node @ '': N'' @ [CHR 0xC3, CHR 0xB3] @ '' de destino ''
                      @ target edge @ '' n'' @ [CHR 0xC3, CHR 0xA3] @ ''o encontrado no flow'')
                    \<in> set (errors (ctxOf (executeCondition env node flow c w)))"
    unfolding eq targetNotFoundMsg_text[symmetric]
    by (intro ballI impI executeTargets_missing_target)
  have none: "chosen = [] \<longrightarrow> executeCondition env node flow c w = (Return (), c, w)"
    unfolding eq by (simp add: executeTargets.simps)
  from eq out vis mis none show ?thesis
    unfolding chosen_def Let_def by blast
qed

theorem executeCondition_follows_branch_witness:
  "ndata leadCondition
     = Some (noData\<lparr>field := Some ''data.lead.source'', operator := Some ''EQUALS'',
                    cvalue := JStr ''whatsapp''\<rparr>)
   \<and> \<not> fieldBlank (Some ''data.lead.source'')
   \<and> evaluateCondition (sampleEnv emptyRepo)
        (noData\<lparr>field := Some ''data.lead.source'', operator := Some ''EQUALS'',
                cvalue := JStr ''whatsapp''\<rparr>) (wdata (webhookData atFan)) = Return True
   \<and> js_String (runtime (sampleEnv emptyRepo)) (JStr ''whatsapp'') = Return ''whatsapp''
   \<and> executeCondition (sampleEnv emptyRepo) leadCondition fanFlow atFan [] =
       executeTargets (sampleEnv emptyRepo) leadCondition
         [mkEdge ''c'' ''x'' (Some ''yes''), mkEdge ''c'' ''e1'' (Some ''yes''),
          mkEdge ''c'' ''a'' (Some ''yes''), mkEdge ''c'' ''ghost'' (Some ''yes'')] fanFlow atFan []
   \<and> outcome (executeCondition (sampleEnv emptyRepo) leadCondition fanFlow atFan []) = Return ()
   \<and> ''e1'' \<in> set (executedNodes (ctxOf
        (executeCondition (sampleEnv emptyRepo) leadCondition fanFlow atFan [])))
   \<and> ''a'' \<in> set (executedNodes (ctxOf
        (executeCondition (sampleEnv emptyRepo) leadCondition fanFlow atFan [])))
   \<and> (''N'' @ [CHR 0xC3, CHR 0xB3] @ '' de condi'' @ [CHR 0xC3, CHR 0xA7, CHR 0xC3, CHR 0xA3]
          @ ''o '' @ ''c'' @ '': N'' @ [CHR 0xC3, CHR 0xB3] @ '' de destino ''
          @ ''x'' @ '' n'' @ [CHR 0xC3, CHR 0xA3] @ ''o encontrado no flow'')
       \<in> set (errors (ctxOf
        (executeCondition (sampleEnv emptyRepo) leadCondition fanFlow atFan [])))
   \<and> (''N'' @ [CHR 0xC3, CHR 0xB3] @ '' de condi'' @ [CHR 0xC3, CHR 0xA7, CHR 0xC3, CHR 0xA3]
          @ ''o '' @ ''c'' @ '': N'' @ [CHR 0xC3, CHR 0xB3] @ '' de destino ''
          @ ''ghost'' @ '' n'' @ [CHR 0xC3, CHR 0xA3] @ ''o encontrado no flow'')
       \<in> set (errors (ctxOf
        (executeCondition (sampleEnv emptyRepo) leadCondition fanFlow atFan [])))
   \<and> executeFlow (sampleEnv emptyRepo) fanFlow (leadEvent ''whatsapp'') None [] =
       (Return \<lparr>success = False, resultNodes = [''t'', ''c'', ''e1'', ''a'', ''e2''],
                resultErrors = [targetNotFoundMsg ''c'' ''x'', targetNotFoundMsg ''c'' ''ghost'']\<rparr>,
        [])
   \<and> evaluateCondition (sampleEnv emptyRepo)
        (noData\<lparr>field := Some ''data.lead.source'', operator := Some ''EQUALS'',
                cvalue := JStr ''whatsapp''\<rparr>) (wdata (webhookData (atCondition ''website'')))
       = Return False
   \<and> executeCondition (sampleEnv emptyRepo) leadCondition leadFlow (atCondition ''website'') [] =
       (Return (), atCondition ''website'', [])
   \<and> executeFlow (sampleEnv emptyRepo) leadFlow (leadEvent ''website'') None [] =
       (Return \<lparr>success = True, resultNodes = [''t'', ''c''], resultErrors = []\<rparr>, [])"
proof -
  let ?d = "noData\<lparr>field := Some ''data.lead.source'', operator := Some ''EQUALS'',
                   cvalue := JStr ''whatsapp''\<rparr>"
  have d: "ndata leadCondition = Some ?d"
    by (simp add: leadCondition_def mkCondition_def)
  have h: "\<not> fieldBlank (field ?d)"
    by (simp add: noData_def engine_defs)
  then have h': "\<not> fieldBlank (Some ''data.lead.source'')"
    by simp
  have b1: "evaluateCondition (sampleEnv emptyRepo) ?d (wdata (webhookData atFan)) = Return True"
    by (simp add: sample_defs sample_defs3 engine_defs Let_def cong: let_weak_cong)
  have b2: "evaluateCondition (sampleEnv emptyRepo) ?d (wdata (webhookData (atCondition ''website'')))
            = Return False"
    by (simp add: sample_defs sample_defs3 engine_defs Let_def cong: let_weak_cong)
  have s: "js_String (runtime (sampleEnv emptyRepo)) (cvalue ?d) = Return ''whatsapp''"
    by simp
  then have s': "js_String (runtime (sampleEnv emptyRepo)) (JStr ''whatsapp'') = Return ''whatsapp''"
    by simp
  have ch1: "filter (\<lambda>edge. sourceHandle edge = Some CONDITION_HANDLES_YES)
               (filter (\<lambda>edge. source edge = ''c'') (edges fanFlow))
             = [mkEdge ''c'' ''x'' (Some ''yes''), mkEdge ''c'' ''e1'' (Some ''yes''),
                mkEdge ''c'' ''a'' (Some ''yes''), mkEdge ''c'' ''ghost'' (Some ''yes'')]"
    by (simp add: sample_defs sample_defs3 sample_defs7 constants_defs)
  have ch2: "filter (\<lambda>edge. sourceHandle edge = Some CONDITION_HANDLES_NO)
               (filter (\<lambda>edge. source edge = ''c'') (edges leadFlow)) = []"
    by (simp add: sample_defs sample_defs3 constants_defs)
  have nid: "node_id leadCondition = ''c''"
    by (simp add: leadCondition_def mkCondition_def)
  have tg: "target (mkEdge ''c'' ''x'' (Some ''yes'')) = ''x''"
    "target (mkEdge ''c'' ''e1'' (Some ''yes'')) = ''e1''"
    "target (mkEdge ''c'' ''a'' (Some ''yes'')) = ''a''"
    "target (mkEdge ''c'' ''ghost'' (Some ''yes'')) = ''ghost''"
    by (simp_all add: mkEdge_def)
  have f1: "find (\<lambda>n. node_id n = ''e1'') (nodes fanFlow) = Some (mkEnd ''e1'')
            \<and> truthy (ntype (mkEnd ''e1''))"
    by (simp add: sample_defs sample_defs7 truthy_def)
  have f2: "find (\<lambda>n. node_id n = ''a'') (nodes fanFlow) = Some (mkAction ''a'' ''LOG'' noConfig)
            \<and> truthy (ntype (mkAction ''a'' ''LOG'' noConfig))"
    by (simp add: sample_defs sample_defs7 truthy_def)
  have f3: "find (\<lambda>n. node_id n = ''x'') (nodes fanFlow) = None
            \<or> (\<exists>t. find (\<lambda>n. node_id n = ''x'') (nodes fanFlow) = Some t \<and> \<not> truthy (ntype t))"
    by (simp add: sample_defs sample_defs7 truthy_def)
  have f4: "find (\<lambda>n. node_id n = ''ghost'') (nodes fanFlow) = None
            \<or> (\<exists>t. find (\<lambda>n. node_id n = ''ghost'') (nodes fanFlow) = Some t \<and> \<not> truthy (ntype t))"
    by (simp add: sample_defs sample_defs7 truthy_def)
  have run1: "executeFlow (sampleEnv emptyRepo) fanFlow (leadEvent ''whatsapp'') None [] =
       (Return \<lparr>success = False, resultNodes = [''t'', ''c'', ''e1'', ''a'', ''e2''],
                resultErrors = [targetNotFoundMsg ''c'' ''x'', targetNotFoundMsg ''c'' ''ghost'']\<rparr>,
        [])"
    by (simp add: engine_simps sample_defs sample_defs7 engine_defs Let_def cong: let_weak_cong)
  have run2: "executeFlow (sampleEnv emptyRepo) leadFlow (leadEvent ''website'') None [] =
       (Return \<lparr>success = True, resultNodes = [''t'', ''c''], resultErrors = []\<rparr>, [])"
    by (simp add: engine_simps sample_defs engine_defs Let_def cong: let_weak_cong)
  note t1 = executeCondition_follows_branch[OF d h b1 s, of fanFlow "[]",
      unfolded Let_def if_True ch1 nid]
  note t2 = executeCondition_follows_branch[OF d h b2 s, of leadFlow "[]",
      unfolded Let_def if_False ch2 nid]
  from t1 have a:
    "executeCondition (sampleEnv emptyRepo) leadCondition fanFlow atFan [] =
       executeTargets (sampleEnv emptyRepo) leadCondition
         [mkEdge ''c'' ''x'' (Some ''yes''), mkEdge ''c'' ''e1'' (Some ''yes''),
          mkEdge ''c'' ''a'' (Some ''yes''), mkEdge ''c'' ''ghost'' (Some ''yes'')] fanFlow atFan []"
    and o: "outcome (executeCondition (sampleEnv emptyRepo) leadCondition fanFlow atFan []) = Return ()"
    by blast+
  from t1 have vis: "\<And>edge t. edge \<in> set [mkEdge ''c'' ''x'' (Some ''yes''), mkEdge ''c'' ''e1'' (Some ''yes''),
          mkEdge ''c'' ''a'' (Some ''yes''), mkEdge ''c'' ''ghost'' (Some ''yes'')]
       \<Longrightarrow> find (\<lambda>n. node_id n = target edge) (nodes fanFlow) = Some t \<and> truthy (ntype t)
       \<Longrightarrow> target edge \<in> set (executedNodes (ctxOf
              (executeCondition (sampleEnv emptyRepo) leadCondition fanFlow atFan [])))"
    by blast
  from t1 have mis: "\<And>edge. edge \<in> set [mkEdge ''c'' ''x'' (Some ''yes''), mkEdge ''c'' ''e1'' (Some ''yes''),
          mkEdge ''c'' ''a'' (Some ''yes''), mkEdge ''c'' ''ghost'' (Some ''yes'')]
       \<Longrightarrow> find (\<lambda>n. node_id n = target edge) (nodes fanFlow) = None
            \<or> (\<exists>t. find (\<lambda>n. node_id n = target edge) (nodes fanFlow) = Some t
                     \<and> \<not> truthy (ntype t))
       \<Longrightarrow> (''N'' @ [CHR 0xC3, CHR 0xB3] @ '' de condi'' @ [CHR 0xC3, CHR 0xA7, CHR 0xC3, CHR 0xA3]
             @ ''o '' @ ''c'' @ '': N'' @ [CHR 0xC3, CHR 0xB3] @ '' de destino ''
             @ target edge @ '' n'' @ [CHR 0xC3, CHR 0xA3] @ ''o encontrado no flow'')
            \<in> set (errors (ctxOf
              (executeCondition (sampleEnv emptyRepo) leadCondition fanFlow atFan [])))"
    by blast
  have v1: "''e1'' \<in> set (executedNodes (ctxOf
        (executeCondition (sampleEnv emptyRepo) leadCondition fanFlow atFan [])))"
    using vis[of "mkEdge ''c'' ''e1'' (Some ''yes'')" "mkEnd ''e1''"] f1 by (simp add: tg)
  have v2: "''a'' \<in> set (executedNodes (ctxOf
        (executeCondition (sampleEnv emptyRepo) leadCondition fanFlow atFan [])))"
    using vis[of "mkEdge ''c'' ''a'' (Some ''yes'')" "mkAction ''a'' ''LOG'' noConfig"] f2
    by (simp add: tg)
  have m1: "(''N'' @ [CHR 0xC3, CHR 0xB3] @ '' de condi'' @ [CHR 0xC3, CHR 0xA7, CHR 0xC3, CHR 0xA3]
          @ ''o '' @ ''c'' @ '': N'' @ [CHR 0xC3, CHR 0xB3] @ '' de destino ''
          @ ''x'' @ '' n'' @ [CHR 0xC3, CHR 0xA3] @ ''o encontrado no flow'')
       \<in> set (errors (ctxOf
        (executeCondition (sampleEnv emptyRepo) leadCondition fanFlow atFan [])))"
    using mis[of "mkEdge ''c'' ''x'' (Some ''yes'')"] f3 by (simp add: tg)
  have m2: "(''N'' @ [CHR 0xC3, CHR 0xB3] @ '' de condi'' @ [CHR 0xC3, CHR 0xA7, CHR 0xC3, CHR 0xA3]
          @ ''o '' @ ''c'' @ '': N'' @ [CHR 0xC3, CHR 0xB3] @ '' de destino ''
          @ ''ghost'' @ '' n'' @ [CHR 0xC3, CHR 0xA3] @ ''o encontrado no flow'')
       \<in> set (errors (ctxOf
        (executeCondition (sampleEnv emptyRepo) leadCondition fanFlow atFan [])))"
    using mis[of "mkEdge ''c'' ''ghost'' (Some ''yes'')"] f4 by (simp add: tg)
  from t2 have n:
    "executeCondition (sampleEnv emptyRepo) leadCondition leadFlow (atCondition ''website'') [] =
       (Return (), atCondition ''website'', [])"
    by blast
  from d h' b1 s' a o v1 v2 m1 m2 run1 b2 n run2 show ?thesis by blast
qed

subsection \<open>The event of the Trigger node\<close>




subsection \<open>A CALL_FLOW action that cannot be resolved\<close>

lemmas sample_defs4 = callFlowNode_def callFlow0_def afterAction_def maybeFlow_def
  blankCondition_def blankFlow_def

text \<open>
  C7, as stated, fails. A CALL_FLOW action without a \<open>flowId\<close> in a flow
  Trigger, Action, End: the \<open>ValidationError\<close> of \<open>executeCallFlowAction\<close> is caught by
  the \<open>catch\<close> of \<open>executeAction\<close>, which records it as an unexpected error of the action
  and goes on to the End node; the error of the run is not the one the \<open>catch\<close> of
  \<open>executeFlow\<close> would record.
\<close>

theorem callFlow_error_propagates_counterexample:
  "executeFlow (sampleEnv emptyRepo) (callFlow0 None) (leadEvent ''whatsapp'') None [] =
     (Return \<lparr>success = False, resultNodes = [''t'', ''a'', ''e''],
              resultErrors = [unexpectedActionErrorMsg ''a''
                                (ValidationError (flowIdNotConfiguredMsg ''a'') ''flowId'')]\<rparr>, [])
   \<and> unexpectedActionErrorMsg ''a'' (ValidationError (flowIdNotConfiguredMsg ''a'') ''flowId'')
       \<noteq> fatalMsg (ValidationError (flowIdNotConfiguredMsg ''a'') ''flowId'')
   \<and> outcome (executeAction (sampleEnv emptyRepo) (callFlowNode None) (callFlow0 None) afterAction [])
       = Return ()"
proof -
  have "executeFlow (sampleEnv emptyRepo) (callFlow0 None) (leadEvent ''whatsapp'') None [] =
     (Return \<lparr>success = False, resultNodes = [''t'', ''a'', ''e''],
              resultErrors = [unexpectedActionErrorMsg ''a''
                                (ValidationError (flowIdNotConfiguredMsg ''a'') ''flowId'')]\<rparr>, [])"
    by (simp add: engine_simps sample_defs sample_defs4 engine_defs Let_def cong: let_weak_cong)
  moreover have "unexpectedActionErrorMsg ''a'' (ValidationError (flowIdNotConfiguredMsg ''a'') ''flowId'')
       \<noteq> fatalMsg (ValidationError (flowIdNotConfiguredMsg ''a'') ''flowId'')"
    by (simp add: unexpectedActionErrorMsg_def fatalMsg_def)
  moreover have "outcome (executeAction (sampleEnv emptyRepo) (callFlowNode None) (callFlow0 None) afterAction [])
       = Return ()"
    by (rule engine_never_throws)
  ultimately show ?thesis by blast
qed

text \<open>
  C7, amended. A CALL_FLOW action with a missing \<open>flowId\<close>, or whose target flow the
  repository does not find, makes \<open>executeCallFlowAction\<close> throw a \<open>ValidationError\<close>,
  thrown again as it is by the function's own \<open>catch\<close>. The \<open>catch\<close> of \<open>executeAction\<close>
  catches it like every other failure of an action: it pushes the unexpected-error
  message with the error's text onto \<open>errors\<close> and goes on with the successors of the
  action. No exception leaves \<open>executeAction\<close> or \<open>executeNode\<close>, so the \<open>catch\<close> of
  \<open>executeFlow\<close> is not reached.
\<close>

theorem callFlow_validation_error_swallowed:
  assumes "ndata node = Some d" and "atype d = Some ACTION_TYPES_CALL_FLOW"
  shows
    "(\<not> truthy (case config d of None \<Rightarrow> None | Some cfg \<Rightarrow> flowId cfg) \<longrightarrow>
        executeCallFlowAction env d (node_id node) c w =
          (Throw (ValidationError (flowIdNotConfiguredMsg (node_id node)) ''flowId''), w)
        \<and> executeAction env node flow c w =
          executeNodes env (getNextNodes (node_id node) flow) flow
            (pushError (unexpectedActionErrorMsg (node_id node)
                          (ValidationError (flowIdNotConfiguredMsg (node_id node)) ''flowId'')) c) w)
     \<and> (\<forall>fid w1.
          (case config d of None \<Rightarrow> None | Some cfg \<Rightarrow> flowId cfg) = Some fid
          \<and> fid \<noteq> [] \<and> findById env fid w = (Return None, w1) \<longrightarrow>
        executeCallFlowAction env d (node_id node) c w =
          (Throw (ValidationError (flowNotFoundMsg (node_id node) fid) ''flowId''), w1)
        \<and> executeAction env node flow c w =
          executeNodes env (getNextNodes (node_id node) flow) flow
            (pushError (unexpectedActionErrorMsg (node_id node)
                          (ValidationError (flowNotFoundMsg (node_id node) fid) ''flowId'')) c) w1)
     \<and> outcome (executeAction env node flow c w) = Return ()
     \<and> outcome (executeNode env nodeId flow c w) = Return ()"
proof (intro conjI impI allI)
  assume m: "\<not> truthy (case config d of None \<Rightarrow> None | Some cfg \<Rightarrow> flowId cfg)"
  then show cf: "executeCallFlowAction env d (node_id node) c w =
          (Throw (ValidationError (flowIdNotConfiguredMsg (node_id node)) ''flowId''), w)"
    by (auto simp: executeCallFlowAction.simps truthy_def split: option.splits)
  show "executeAction env node flow c w =
          executeNodes env (getNextNodes (node_id node) flow) flow
            (pushError (unexpectedActionErrorMsg (node_id node)
                          (ValidationError (flowIdNotConfiguredMsg (node_id node)) ''flowId'')) c) w"
    using assms cf by (simp add: executeAction.simps Let_def truthy_def constants_defs)
next
  fix fid w1
  assume f: "(case config d of None \<Rightarrow> None | Some cfg \<Rightarrow> flowId cfg) = Some fid
          \<and> fid \<noteq> [] \<and> findById env fid w = (Return None, w1)"
  then show cf: "executeCallFlowAction env d (node_id node) c w =
          (Throw (ValidationError (flowNotFoundMsg (node_id node) fid) ''flowId''), w1)"
    by (simp add: executeCallFlowAction.simps callFlowCatch_def isValidationError_def Let_def)
  show "executeAction env node flow c w =
          executeNodes env (getNextNodes (node_id node) flow) flow
            (pushError (unexpectedActionErrorMsg (node_id node)
                          (ValidationError (flowNotFoundMsg (node_id node) fid) ''flowId'')) c) w1"
    using assms cf by (simp add: executeAction.simps Let_def truthy_def constants_defs)
next
  show "outcome (executeAction env node flow c w) = Return ()"
    by (rule engine_never_throws)
next
  show "outcome (executeNode env nodeId flow c w) = Return ()"
    by (rule engine_never_throws)
qed

theorem callFlow_validation_error_swallowed_witness:
  "ndata (callFlowNode None)
     = Some (noData\<lparr>atype := Some ''CALL_FLOW'', config := Some (noConfig\<lparr>flowId := None\<rparr>)\<rparr>)
   \<and> atype (noData\<lparr>atype := Some ''CALL_FLOW'', config := Some (noConfig\<lparr>flowId := None\<rparr>)\<rparr>)
       = Some ACTION_TYPES_CALL_FLOW
   \<and> \<not> truthy (case config (noData\<lparr>atype := Some ''CALL_FLOW'',
                                       config := Some (noConfig\<lparr>flowId := None\<rparr>)\<rparr>) of
                   None \<Rightarrow> None | Some cfg \<Rightarrow> flowId cfg)
   \<and> executeCallFlowAction (sampleEnv emptyRepo)
        (noData\<lparr>atype := Some ''CALL_FLOW'', config := Some (noConfig\<lparr>flowId := None\<rparr>)\<rparr>)
        ''a'' afterAction [] =
        (Throw (ValidationError (flowIdNotConfiguredMsg ''a'') ''flowId''), [])
   \<and> executeAction (sampleEnv emptyRepo) (callFlowNode None) (callFlow0 None) afterAction [] =
        executeNodes (sampleEnv emptyRepo) [''e''] (callFlow0 None)
          (pushError (unexpectedActionErrorMsg ''a''
                        (ValidationError (flowIdNotConfiguredMsg ''a'') ''flowId'')) afterAction) []
   \<and> ndata (callFlowNode (Some ''ghost''))
     = Some (noData\<lparr>atype := Some ''CALL_FLOW'',
                    config := Some (noConfig\<lparr>flowId := Some ''ghost''\<rparr>)\<rparr>)
   \<and> (case config (noData\<lparr>atype := Some ''CALL_FLOW'',
                            config := Some (noConfig\<lparr>flowId := Some ''ghost''\<rparr>)\<rparr>) of
         None \<Rightarrow> None | Some cfg \<Rightarrow> flowId cfg) = Some ''ghost''
   \<and> findById (sampleEnv emptyRepo) ''ghost'' [] = (Return None, [])
   \<and> executeCallFlowAction (sampleEnv emptyRepo)
        (noData\<lparr>atype := Some ''CALL_FLOW'', config := Some (noConfig\<lparr>flowId := Some ''ghost''\<rparr>)\<rparr>)
        ''a'' afterAction [] =
        (Throw (ValidationError (flowNotFoundMsg ''a'' ''ghost'') ''flowId''), [])
   \<and> outcome (executeAction (sampleEnv emptyRepo) (callFlowNode None) (callFlow0 None) afterAction [])
       = Return ()"
proof -
  let ?d1 = "noData\<lparr>atype := Some ''CALL_FLOW'', config := Some (noConfig\<lparr>flowId := None\<rparr>)\<rparr>"
  let ?d2 = "noData\<lparr>atype := Some ''CALL_FLOW'',
                    config := Some (noConfig\<lparr>flowId := Some ''ghost''\<rparr>)\<rparr>"
  have d1: "ndata (callFlowNode None) = Some ?d1"
    by (simp add: sample_defs sample_defs4)
  have d2: "ndata (callFlowNode (Some ''ghost'')) = Some ?d2"
    by (simp add: sample_defs sample_defs4)
  have h1: "atype ?d1 = Some ACTION_TYPES_CALL_FLOW"
    by (simp add: constants_defs)
  have h2: "\<not> truthy (case config ?d1 of None \<Rightarrow> None | Some cfg \<Rightarrow> flowId cfg)"
    by (simp add: sample_defs truthy_def)
  have h3: "atype ?d2 = Some ACTION_TYPES_CALL_FLOW"
    by (simp add: constants_defs)
  have h4: "(case config ?d2 of None \<Rightarrow> None | Some cfg \<Rightarrow> flowId cfg) = Some ''ghost''"
    by (simp add: sample_defs)
  have h5: "findById (sampleEnv emptyRepo) ''ghost'' [] = (Return None, [])"
    by (simp add: sample_defs)
  have nid: "node_id (callFlowNode None) = ''a''" "node_id (callFlowNode (Some ''ghost'')) = ''a''"
    by (simp_all add: sample_defs sample_defs4)
  have nx: "getNextNodes ''a'' (callFlow0 None) = [''e'']"
    by (simp add: getNextNodes_def sample_defs sample_defs4)
  note t1 = callFlow_validation_error_swallowed[OF d1 h1, of "sampleEnv emptyRepo" afterAction "[]"
      "callFlow0 None" "''a''", unfolded nid nx]
  note t2 = callFlow_validation_error_swallowed[OF d2 h3, of "sampleEnv emptyRepo" afterAction "[]"
      "callFlow0 None" "''a''", unfolded nid]
  from t1 h2 have a: "executeCallFlowAction (sampleEnv emptyRepo) ?d1 ''a'' afterAction [] =
        (Throw (ValidationError (flowIdNotConfiguredMsg ''a'') ''flowId''), [])
     \<and> executeAction (sampleEnv emptyRepo) (callFlowNode None) (callFlow0 None) afterAction [] =
        executeNodes (sampleEnv emptyRepo) [''e''] (callFlow0 None)
          (pushError (unexpectedActionErrorMsg ''a''
                        (ValidationError (flowIdNotConfiguredMsg ''a'') ''flowId'')) afterAction) []"
    by blast
  from t2 h4 h5 have b: "executeCallFlowAction (sampleEnv emptyRepo) ?d2 ''a''
        afterAction [] =
        (Throw (ValidationError (flowNotFoundMsg ''a'' ''ghost'') ''flowId''), [])"
    by blast
  from t1 have c: "outcome (executeAction (sampleEnv emptyRepo) (callFlowNode None) (callFlow0 None) afterAction [])
       = Return ()"
    by blast
  from d1 h1 h2 a d2 h4 h5 b c show ?thesis by blast
qed

subsection \<open>What validateFlow reports\<close>

text \<open>
  C8. The claim holds for a missing handle and not for an invalid one: an outgoing edge
  of a Condition node whose \<open>sourceHandle\<close> is present but is neither \<open>yes\<close> nor \<open>no\<close> is
  not reported, although the message of \<open>validateFlow\<close> itself says that every such edge
  must carry \<open>yes\<close> or \<open>no\<close>. In \<open>maybeFlow\<close> the only edge that leaves the Condition
  node has the \<open>sourceHandle\<close> \<open>maybe\<close>; \<open>validateFlow\<close> reports nothing and the run is
  not aborted: the Trigger and the Condition node are executed, the edge is never
  followed, and the result is a success.
\<close>

theorem validateFlow_accepts_invalid_handle:
  "mkEdge ''c'' ''e'' (Some ''maybe'') \<in> set (edges maybeFlow)
   \<and> source (mkEdge ''c'' ''e'' (Some ''maybe'')) =
       node_id (mkCondition ''c'' (Some ''data.lead.source'') ''EQUALS'' (JStr ''whatsapp''))
   \<and> sourceHandle (mkEdge ''c'' ''e'' (Some ''maybe'')) \<noteq> Some CONDITION_HANDLES_YES
   \<and> sourceHandle (mkEdge ''c'' ''e'' (Some ''maybe'')) \<noteq> Some CONDITION_HANDLES_NO
   \<and> validateFlow maybeFlow = []
   \<and> executeFlow (sampleEnv emptyRepo) maybeFlow (leadEvent ''whatsapp'') None [] =
        (Return \<lparr>success = True, resultNodes = [''t'', ''c''], resultErrors = []\<rparr>, [])"
proof -
  have "validateFlow maybeFlow = []"
    by (simp add: sample_defs sample_defs4 engine_defs Let_def cong: let_weak_cong)
  moreover have "executeFlow (sampleEnv emptyRepo) maybeFlow (leadEvent ''whatsapp'') None [] =
        (Return \<lparr>success = True, resultNodes = [''t'', ''c''], resultErrors = []\<rparr>, [])"
    by (simp add: engine_simps sample_defs sample_defs4 engine_defs Let_def cong: let_weak_cong)
  ultimately show ?thesis
    by (simp add: sample_defs sample_defs4 constants_defs)
qed

lemma validateConditionNodes_eq:
  "validateConditionNodes flow ns errs = errs @ concat (map (handleIssue flow) ns)"
  by (induction ns arbitrary: errs) (simp_all add: handleIssue_def edgesWithoutHandle_def Let_def)

lemma validateFlow_eq:
  "nodes flow \<noteq> [] \<Longrightarrow>
     validateFlow flow =
       triggerIssues flow
       @ concat (map (handleIssue flow)
                   (filter (\<lambda>n. ntype n = Some NODE_TYPES_CONDITION) (nodes flow)))"
  by (simp add: validateFlow_def triggerIssues_def validateConditionNodes_eq Let_def)

text \<open>
  What \<open>validateFlow\<close> does report. For a flow that has nodes, the issues about its
  Trigger nodes and then, for every Condition node that has outgoing edges whose
  \<open>sourceHandle\<close> is missing (absent or empty), one issue that gives the number of those
  edges. Any validation issue aborts the run before any node is executed: the issues are
  the errors of the result and \<open>executedNodes\<close> is empty. A Condition node none of whose
  outgoing edges lacks a handle adds no issue, so a Condition node that has only a
  \<open>yes\<close> edge, or only a \<open>no\<close> edge, is not a validation error.
\<close>

lemma validateFlow_reports_missing_handles:
  "(nodes flow \<noteq> [] \<longrightarrow>
      validateFlow flow =
        triggerIssues flow
        @ concat (map (handleIssue flow)
                    (filter (\<lambda>n. ntype n = Some NODE_TYPES_CONDITION) (nodes flow))))
   \<and> (validateFlow flow \<noteq> [] \<and> depth (initContext flow ev parent) < MAX_FLOW_DEPTH
       \<and> \<not> 1 < length (filter (\<lambda>i. i = flow_id flow) (flowCallStack (initContext flow ev parent)))
      \<longrightarrow> executeFlow env flow ev parent w =
            (Return \<lparr>success = False, resultNodes = [], resultErrors = validateFlow flow\<rparr>, w))
   \<and> (nodes flow \<noteq> []
       \<and> (\<forall>n \<in> set (nodes flow). ntype n = Some NODE_TYPES_CONDITION
              \<longrightarrow> edgesWithoutHandle flow n = [])
      \<longrightarrow> validateFlow flow = triggerIssues flow)"
proof (intro conjI impI)
  assume "nodes flow \<noteq> []"
  then show "validateFlow flow =
        triggerIssues flow
        @ concat (map (handleIssue flow)
                    (filter (\<lambda>n. ntype n = Some NODE_TYPES_CONDITION) (nodes flow)))"
    by (rule validateFlow_eq)
next
  assume a: "validateFlow flow \<noteq> [] \<and> depth (initContext flow ev parent) < MAX_FLOW_DEPTH
       \<and> \<not> 1 < length (filter (\<lambda>i. i = flow_id flow) (flowCallStack (initContext flow ev parent)))"
  have e0: "errors (initContext flow ev parent) = []"
    and n0: "executedNodes (initContext flow ev parent) = []"
    by (simp_all add: initContext_def split: option.split)
  from a show "executeFlow env flow ev parent w =
            (Return \<lparr>success = False, resultNodes = [], resultErrors = validateFlow flow\<rparr>, w)"
    by (simp add: executeFlow.simps Let_def formatResult_def e0 n0)
next
  assume a: "nodes flow \<noteq> []
       \<and> (\<forall>n \<in> set (nodes flow). ntype n = Some NODE_TYPES_CONDITION
              \<longrightarrow> edgesWithoutHandle flow n = [])"
  then have "concat (map (handleIssue flow)
               (filter (\<lambda>n. ntype n = Some NODE_TYPES_CONDITION) (nodes flow))) = []"
    by (auto simp: handleIssue_def)
  with a show "validateFlow flow = triggerIssues flow"
    by (simp add: validateFlow_eq)
qed

lemma validateFlow_reports_missing_handles_example:
  "nodes blankFlow \<noteq> []
   \<and> validateFlow (blankFlow\<lparr>edges := [mkEdge ''t'' ''c'' None, mkEdge ''c'' ''e'' None,
                                      mkEdge ''c'' ''t'' (Some [])]\<rparr>) =
        [edgesWithoutHandleMsg ''c'' 2]
   \<and> executeFlow (sampleEnv emptyRepo)
        (blankFlow\<lparr>edges := [mkEdge ''t'' ''c'' None, mkEdge ''c'' ''e'' None,
                             mkEdge ''c'' ''t'' (Some [])]\<rparr>) (leadEvent ''whatsapp'') None [] =
        (Return \<lparr>success = False, resultNodes = [],
                 resultErrors = [edgesWithoutHandleMsg ''c'' 2]\<rparr>, [])
   \<and> nodes leadFlow \<noteq> []
   \<and> edgesWithoutHandle leadFlow leadCondition = []
   \<and> validateFlow leadFlow = []"
proof -
  let ?bad = "blankFlow\<lparr>edges := [mkEdge ''t'' ''c'' None, mkEdge ''c'' ''e'' None,
                                  mkEdge ''c'' ''t'' (Some [])]\<rparr>"
  have n1: "nodes ?bad \<noteq> []" and n1': "nodes blankFlow \<noteq> []"
    by (simp_all add: sample_defs4)
  have ti: "triggerIssues ?bad = []"
    by (simp add: triggerIssues_def sample_defs sample_defs4 constants_defs Let_def)
  have hi: "concat (map (handleIssue ?bad)
              (filter (\<lambda>n. ntype n = Some NODE_TYPES_CONDITION) (nodes ?bad)))
            = [edgesWithoutHandleMsg ''c'' 2]"
    by (simp add: handleIssue_def edgesWithoutHandle_def sample_defs sample_defs4 constants_defs
                  truthy_def numeral_2_eq_2)
  note t1 = validateFlow_reports_missing_handles[of ?bad "leadEvent ''whatsapp''" None
      "sampleEnv emptyRepo" "[]"]
  from t1 n1 ti hi have v: "validateFlow ?bad = [edgesWithoutHandleMsg ''c'' 2]"
    by simp
  have g: "depth (initContext ?bad (leadEvent ''whatsapp'') None) < MAX_FLOW_DEPTH
       \<and> \<not> 1 < length (filter (\<lambda>i. i = flow_id ?bad)
                         (flowCallStack (initContext ?bad (leadEvent ''whatsapp'') None)))"
    by (simp add: initContext_def MAX_FLOW_DEPTH_def)
  from t1 v g have r: "executeFlow (sampleEnv emptyRepo) ?bad (leadEvent ''whatsapp'') None [] =
        (Return \<lparr>success = False, resultNodes = [],
                 resultErrors = [edgesWithoutHandleMsg ''c'' 2]\<rparr>, [])"
    by simp
  have n2: "nodes leadFlow \<noteq> []"
    by (simp add: leadFlow_def)
  have c2: "\<forall>n \<in> set (nodes leadFlow). ntype n = Some NODE_TYPES_CONDITION
              \<longrightarrow> edgesWithoutHandle leadFlow n = []"
    by (simp add: edgesWithoutHandle_def sample_defs constants_defs truthy_def)
  have c2': "edgesWithoutHandle leadFlow leadCondition = []"
    by (simp add: edgesWithoutHandle_def sample_defs sample_defs3 truthy_def)
  have ti2: "triggerIssues leadFlow = []"
    by (simp add: triggerIssues_def sample_defs constants_defs Let_def)
  note t2 = validateFlow_reports_missing_handles[of leadFlow "leadEvent ''whatsapp''" None
      "sampleEnv emptyRepo" "[]"]
  have "validateFlow leadFlow = triggerIssues leadFlow"
    by (rule t2[THEN conjunct2, THEN conjunct2, rule_format, OF conjI[OF n2 c2]])
  with ti2 have v2: "validateFlow leadFlow = []"
    by simp
  from n1' v r n2 c2' v2 show ?thesis by blast
qed

subsection \<open>A Condition node without a field\<close>




subsection \<open>A field that does not resolve\<close>

lemma walkKeys_undefined [simp]: "walkKeys rt JUndefined keys = JUndefined"
  by (cases keys) simp_all

lemma walkKeys_null: "walkKeys rt JNull keys = JUndefined \<or> walkKeys rt JNull keys = JNull"
  by (cases keys) simp_all

text \<open>
  \<open>getNestedValue\<close> answers \<open>undefined\<close> or \<open>null\<close> exactly on the paths that do not
  resolve in the sense of the specification.
\<close>

lemma unresolved_iff_walkKeys:
  "unresolved rt v keys \<longleftrightarrow> (walkKeys rt v keys = JUndefined \<or> walkKeys rt v keys = JNull)"
proof (induction keys arbitrary: v)
  case Nil
  show ?case by auto
next
  case (Cons key keys)
  show ?case
  proof (cases "isObjectType v")
    case False
    then show ?thesis by simp
  next
    case obj: True
    then have nn: "v \<noteq> JNull" "v \<noteq> JUndefined"
      by (auto simp: isObjectType_def)
    show ?thesis
    proof (cases "ownProp v key = None \<and> inherited rt v key = JUndefined")
      case True
      then have "getProp rt v key = JUndefined"
        by (simp add: getProp_def)
      with obj nn True show ?thesis by simp
    next
      case False
      with obj nn Cons.IH[of "getProp rt v key"] show ?thesis by auto
    qed
  qed
qed

lemma fieldUnresolved_getNestedValue:
  "fieldUnresolved rt data f \<Longrightarrow>
     getNestedValue rt data (conditionFieldPath f) = JUndefined
     \<or> getNestedValue rt data (conditionFieldPath f) = JNull"
  by (auto simp: fieldUnresolved_def getNestedValue_def unresolved_iff_walkKeys)

text \<open>
  C10, as stated, fails. The object \<open>lead\<close> of the payload has the one key \<open>source\<close>: the
  key \<open>constructor\<close> is missing from it. The read \<open>current[key]\<close> finds the property that
  every object inherits under that name, a function, so the path \<open>data.lead.constructor\<close>
  resolves: NOT_EQUALS compares the text of the function with the literal and is true,
  while EQUALS is false.
\<close>

theorem inherited_key_resolves_counterexample:
  "wdata (leadEvent ''whatsapp'') = [(''lead'', JObj [(''source'', JStr ''whatsapp'')])]
   \<and> map_of [(''source'', JStr ''whatsapp'')] ''constructor'' = None
   \<and> evaluateCondition (sampleEnv emptyRepo)
        (noData\<lparr>field := Some ''data.lead.constructor'', operator := Some OP_NOT_EQUALS,
                cvalue := JStr ''whatsapp''\<rparr>) (wdata (leadEvent ''whatsapp'')) = Return True
   \<and> evaluateCondition (sampleEnv emptyRepo)
        (noData\<lparr>field := Some ''data.lead.constructor'', operator := Some OP_EQUALS,
                cvalue := JStr ''whatsapp''\<rparr>) (wdata (leadEvent ''whatsapp'')) = Return False"
  by (simp add: sample_defs engine_defs Let_def cong: let_weak_cong)

text \<open>
  C10, amended. Whatever the payload, the operator and the literal: when the path of
  the condition's field does not resolve in the payload, a key being missing only if
  the object neither has nor inherits a property of that name, \<open>evaluateCondition\<close>
  returns false. The path does not resolve when it is empty, when a value on the way is
  not an object (a primitive, \<open>null\<close> or \<open>undefined\<close>), when a key is missing in that
  sense, or when the value at its end is \<open>null\<close> or \<open>undefined\<close>. In particular EQUALS
  and NOT_EQUALS are both false there: NOT_EQUALS is not the negation of EQUALS.
\<close>

theorem evaluateCondition_unresolved_false:
  assumes "field cond = Some f"
    and "fieldUnresolved (runtime env) data f"
  shows "evaluateCondition env (cond\<lparr>operator := op, cvalue := v\<rparr>) data = Return False
         \<and> evaluateCondition env (cond\<lparr>operator := Some OP_EQUALS, cvalue := v\<rparr>) data
             = evaluateCondition env (cond\<lparr>operator := Some OP_NOT_EQUALS, cvalue := v\<rparr>) data"
proof -
  have "\<And>o'. evaluateCondition env (cond\<lparr>operator := o', cvalue := v\<rparr>) data = Return False"
  proof -
    fix o'
    from fieldUnresolved_getNestedValue[OF assms(2)]
    show "evaluateCondition env (cond\<lparr>operator := o', cvalue := v\<rparr>) data = Return False"
      using assms(1)
      by (auto simp: evaluateCondition_def conditionFieldPath_def Let_def)
  qed
  then show ?thesis by simp
qed

theorem evaluateCondition_unresolved_false_witness:
  "field (noData\<lparr>field := Some ''data.lead.missing''\<rparr>) = Some ''data.lead.missing''
   \<and> fieldUnresolved (runtime (sampleEnv emptyRepo))
        [(''lead'', JObj [(''source'', JStr ''whatsapp''), (''owner'', JNull)])] ''data.lead.missing''
   \<and> evaluateCondition (sampleEnv emptyRepo)
        (noData\<lparr>field := Some ''data.lead.missing'', operator := Some OP_NOT_EQUALS,
                cvalue := JStr ''whatsapp''\<rparr>)
        [(''lead'', JObj [(''source'', JStr ''whatsapp''), (''owner'', JNull)])] = Return False
   \<and> evaluateCondition (sampleEnv emptyRepo)
        (noData\<lparr>field := Some ''data.lead.missing'', operator := Some OP_EQUALS,
                cvalue := JStr ''whatsapp''\<rparr>)
        [(''lead'', JObj [(''source'', JStr ''whatsapp''), (''owner'', JNull)])] = Return False
   \<and> fieldUnresolved (runtime (sampleEnv emptyRepo))
        [(''lead'', JObj [(''source'', JStr ''whatsapp''), (''owner'', JNull)])] ''lead.source.length''
   \<and> evaluateCondition (sampleEnv emptyRepo)
        (noData\<lparr>field := Some ''lead.source.length'', operator := Some OP_NOT_EQUALS,
                cvalue := JStr ''whatsapp''\<rparr>)
        [(''lead'', JObj [(''source'', JStr ''whatsapp''), (''owner'', JNull)])] = Return False
   \<and> fieldUnresolved (runtime (sampleEnv emptyRepo))
        [(''lead'', JObj [(''source'', JStr ''whatsapp''), (''owner'', JNull)])] ''lead.owner''
   \<and> evaluateCondition (sampleEnv emptyRepo)
        (noData\<lparr>field := Some ''lead.owner'', operator := Some OP_NOT_EQUALS,
                cvalue := JStr ''whatsapp''\<rparr>)
        [(''lead'', JObj [(''source'', JStr ''whatsapp''), (''owner'', JNull)])] = Return False"
proof -
  let ?data = "[(''lead'', JObj [(''source'', JStr ''whatsapp''), (''owner'', JNull)])]"
  have rt: "runtime (sampleEnv emptyRepo) = sampleRuntime"
    by (simp add: sampleEnv_def)
  have u1: "fieldUnresolved (runtime (sampleEnv emptyRepo)) ?data ''data.lead.missing''"
    by (simp add: fieldUnresolved_def conditionFieldPath_def sample_defs engine_defs
                  Let_def cong: let_weak_cong)
  have u2: "fieldUnresolved (runtime (sampleEnv emptyRepo)) ?data ''lead.source.length''"
    by (simp add: fieldUnresolved_def conditionFieldPath_def sample_defs engine_defs
                  Let_def cong: let_weak_cong)
  have u3: "fieldUnresolved (runtime (sampleEnv emptyRepo)) ?data ''lead.owner''"
    by (simp add: fieldUnresolved_def conditionFieldPath_def sample_defs engine_defs
                  Let_def cong: let_weak_cong)
  have h1: "field (noData\<lparr>field := Some ''data.lead.missing''\<rparr>) = Some ''data.lead.missing''"
    and h2: "field (noData\<lparr>field := Some ''lead.source.length''\<rparr>) = Some ''lead.source.length''"
    and h3: "field (noData\<lparr>field := Some ''lead.owner''\<rparr>) = Some ''lead.owner''"
    by simp_all
  note t1 = evaluateCondition_unresolved_false[OF h1 u1, where op = "Some OP_NOT_EQUALS"
      and v = "JStr ''whatsapp''"]
  note t1' = evaluateCondition_unresolved_false[OF h1 u1, where op = "Some OP_EQUALS"
      and v = "JStr ''whatsapp''"]
  note t2 = evaluateCondition_unresolved_false[OF h2 u2, where op = "Some OP_NOT_EQUALS"
      and v = "JStr ''whatsapp''"]
  note t3 = evaluateCondition_unresolved_false[OF h3 u3, where op = "Some OP_NOT_EQUALS"
      and v = "JStr ''whatsapp''"]
  from t1 have a: "evaluateCondition (sampleEnv emptyRepo)
        (noData\<lparr>field := Some ''data.lead.missing'', operator := Some OP_NOT_EQUALS,
                cvalue := JStr ''whatsapp''\<rparr>) ?data = Return False"
    by simp
  from t1' have b: "evaluateCondition (sampleEnv emptyRepo)
        (noData\<lparr>field := Some ''data.lead.missing'', operator := Some OP_EQUALS,
                cvalue := JStr ''whatsapp''\<rparr>) ?data = Return False"
    by simp
  from t2 have c: "evaluateCondition (sampleEnv emptyRepo)
        (noData\<lparr>field := Some ''lead.source.length'', operator := Some OP_NOT_EQUALS,
                cvalue := JStr ''whatsapp''\<rparr>) ?data = Return False"
    by simp
  from t3 have d: "evaluateCondition (sampleEnv emptyRepo)
        (noData\<lparr>field := Some ''lead.owner'', operator := Some OP_NOT_EQUALS,
                cvalue := JStr ''whatsapp''\<rparr>) ?data = Return False"
    by simp
  from h1 u1 a b u2 c u3 d show ?thesis by blast
qed

subsection \<open>Runs of the scenarios of the specification\<close>

lemmas sample_defs6 = timeoutEnv_def failingEnv_def sleepyRepo_def

text \<open>
  The payload \<open>{lead: {source: "whatsapp"}}\<close> on the flow Trigger, Condition
  (\<open>data.lead.source EQUALS "whatsapp"\<close>), HTTP_REQUEST on the \<open>yes\<close> branch, End.
\<close>

lemma lead_run_example:
  "executeFlow (sampleEnv emptyRepo) leadFlow (leadEvent ''whatsapp'') None [] =
     (Return \<lparr>success = True, resultNodes = [''t'', ''c'', ''a'', ''e''], resultErrors = []\<rparr>, [])"
  by (simp add: engine_simps sample_defs engine_defs Let_def cong: let_weak_cong)

text \<open>
  The same run when the request is aborted by the timer, and when the endpoint answers
  503: one error, and the End node after the action is executed all the same.
\<close>

lemma timeout_run_example:
  "executeFlow timeoutEnv leadFlow (leadEvent ''whatsapp'') None [] =
     (Return \<lparr>success = False, resultNodes = [''t'', ''c'', ''a'', ''e''],
              resultErrors = [unexpectedActionErrorMsg ''a'' (Error ''Error'' timeoutMsg)]\<rparr>, [])"
  by (simp add: engine_simps sample_defs sample_defs6 engine_defs isAbortError_def Let_def
           cong: let_weak_cong)

lemma failing_run_example:
  "executeFlow failingEnv leadFlow (leadEvent ''whatsapp'') None [] =
     (Return \<lparr>success = False, resultNodes = [''t'', ''c'', ''a'', ''e''],
              resultErrors = [unexpectedActionErrorMsg ''a''
                                (Error ''Error'' (httpStatusMsg 503 ''busy''))]\<rparr>, [])"
  by (simp add: engine_simps sample_defs sample_defs6 engine_defs isAbortError_def Let_def
           cong: let_weak_cong)

text \<open>
  A CALL_FLOW action whose target is inactive: the target is not entered, nothing is
  written to the execution log, no error is recorded and the caller goes on.
\<close>

lemma inactive_call_run_example:
  "executeFlow (sampleEnv sleepyRepo) (chainFlow ''main'' ''sleepy'') (leadEvent ''whatsapp'') None [] =
     (Return \<lparr>success = True, resultNodes = [''t'', ''a'', ''e''], resultErrors = []\<rparr>, [])"
  by (simp add: engine_simps sample_defs sample_defs5 sample_defs6 engine_defs
                isValidationError_def Let_def cong: let_weak_cong)

text \<open>
  A condition on a number: \<open>lead.age GREATER_THAN "18"\<close> on the payload
  \<open>{lead: {age: 32}}\<close> is true, and \<open>lead.age EQUALS "32"\<close> as well, since both sides are
  compared as texts.
\<close>

lemma number_condition_example:
  "evaluateCondition (sampleEnv emptyRepo)
     (noData\<lparr>field := Some ''lead.age'', operator := Some OP_GREATER_THAN, cvalue := JStr ''18''\<rparr>)
     [(''lead'', JObj [(''age'', JNum (Fin 32))])] = Return True
   \<and> evaluateCondition (sampleEnv emptyRepo)
     (noData\<lparr>field := Some ''lead.age'', operator := Some OP_EQUALS, cvalue := JStr ''32''\<rparr>)
     [(''lead'', JObj [(''age'', JNum (Fin 32))])] = Return True"
  by (simp add: sample_defs engine_defs showNat.simps isNaN_def Let_def cong: let_weak_cong)

text \<open>
  A condition on a value that has no text: the payload \<open>{lead: {toString: 1}}\<close> and the
  field \<open>lead\<close>. \<open>String(fieldValue)\<close> throws; the \<open>catch\<close> of \<open>executeNode\<close> records the
  error, and the path of the Condition node ends there: neither branch is followed.
\<close>

lemma unprintable_value_run_example:
  "executeFlow (sampleEnv emptyRepo)
     (leadFlow\<lparr>nodes := [mkTrigger ''t'' ''lead.converted'',
                          mkCondition ''c'' (Some ''lead'') ''EQUALS'' (JStr ''whatsapp''),
                          mkEnd ''e''],
                edges := [mkEdge ''t'' ''c'' None, mkEdge ''c'' ''e'' (Some ''yes''),
                          mkEdge ''c'' ''e'' (Some ''no'')]\<rparr>)
     \<lparr>event_id = ''ev3'', wevent = ''lead.converted'',
      wdata = [(''lead'', JObj [(''toString'', JNum (Fin 1))])]\<rparr> None [] =
     (Return \<lparr>success = False, resultNodes = [''t'', ''c''],
              resultErrors = [nodeErrorMsg ''c'' (typeError cannotConvertMsg)]\<rparr>, [])"
  by (simp add: engine_simps sample_defs engine_defs Let_def cong: let_weak_cong)

text \<open>
  A Condition node stored without data: the read of \<open>field\<close> throws inside the \<open>try\<close> of
  \<open>executeNode\<close>, whose \<open>catch\<close> records the error; the run returns its result.
\<close>

lemma condition_without_data_run_example:
  "executeFlow (sampleEnv emptyRepo)
     (leadFlow\<lparr>nodes := [mkTrigger ''t'' ''lead.converted'',
                          \<lparr>node_id = ''c'', ntype = Some ''condition'', ndata = None\<rparr>,
                          mkEnd ''e''],
                edges := [mkEdge ''t'' ''c'' None, mkEdge ''c'' ''e'' (Some ''yes'')]\<rparr>)
     (leadEvent ''whatsapp'') None [] =
     (Return \<lparr>success = False, resultNodes = [''t'', ''c''],
              resultErrors = [nodeErrorMsg ''c'' (typeError (cannotReadMsg ''field''))]\<rparr>, [])"
  by (simp add: engine_simps sample_defs engine_defs Let_def cong: let_weak_cong)

end
